theory Spec2Isabelle
  imports Complex_Main "HOL-Library.Multiset"
begin

section \<open>Shared data model (packages/shared)\<close>

text \<open>
  JavaScript values as they travel through the collectors: the result of \<open>JSON.parse\<close>,
  extended with \<open>undefined\<close>. A number is held as the text that \<open>String(n)\<close> prints for
  it (a canonical, injective rendering of a double; \<open>0\<close> and \<open>-0\<close> both print \<open>0\<close>): the
  collectors never calculate with payload numbers, they only pass them on, test them for
  truthiness and print them. An object is its list of own properties, in insertion order.
\<close>

datatype jsval =
    JUndefined
  | JNull
  | JBool bool
  | JNumber string
  | JString string
  | JArray "jsval list"
  | JObject "(string \<times> jsval) list"

subsection \<open>Entity flags and status (types/index.ts)\<close>

datatype ProjectStatus = Normal | Watch | Warning | Danger

text \<open>
  \<open>RiskFlag\<close> and \<open>OpportunityFlag\<close>. The literal unions of the source
  (\<open>'low' | 'medium' | 'high' | 'critical'\<close>) are strings at run time and are compared
  with \<open>===\<close>, so they are strings here.
\<close>

record RiskFlag =
  rf_type :: string
  rf_severity :: string
  rf_description :: string
  rf_detectedAt :: string
  rf_source :: "string option"

record OpportunityFlag =
  of_type :: string
  of_importance :: string
  of_description :: string
  of_detectedAt :: string
  of_source :: "string option"

text \<open>\<open>determineProjectStatus\<close> (utils); \<open>Array.prototype.some\<close> is \<open>list_ex\<close>.\<close>

definition determineProjectStatus ::
  "real \<Rightarrow> RiskFlag list \<Rightarrow> OpportunityFlag list \<Rightarrow> ProjectStatus" where
  "determineProjectStatus healthScore riskFlags opportunityFlags =
     (let hasCriticalRisk = list_ex (\<lambda>f. rf_severity f = ''critical'') riskFlags in
      if hasCriticalRisk then Danger
      else
        let hasHighRisk = list_ex (\<lambda>f. rf_severity f = ''high'') riskFlags in
        if hasHighRisk \<or> healthScore < 30 then Danger
        else
          let hasMediumRisk = list_ex (\<lambda>f. rf_severity f = ''medium'') riskFlags in
          if hasMediumRisk \<or> healthScore < 50 then Warning
          else
            let hasHighOpportunity =
                  list_ex (\<lambda>f. of_importance f = ''high'') opportunityFlags in
            if hasHighOpportunity \<or> healthScore \<ge> 80 then Watch
            else Normal)"

subsection \<open>Entity operations and the agent's output (types/info.ts)\<close>

text \<open>
  The operations are built by \<open>toolCallToOperation\<close> from the tool input with unchecked
  casts (\<open>input.id as string\<close>), so a field that the model left out is \<open>undefined\<close> in
  the operation even where the interface declares it required: every field read from the
  tool input is an option here.
\<close>

record EntityFields =
  ent_id :: "string option"
  ent_name :: "string option"
  ent_category :: "string option"
  ent_description :: "string option"
  ent_logo :: "string option"
  ent_website :: "string option"
  ent_twitter :: "string option"
  ent_attributes :: "(string \<times> jsval) list option"

record UpdateFields =
  upd_healthScore :: "real option"
  upd_status :: "string option"
  upd_newsSentiment :: "string option"
  upd_attributes :: "(string \<times> jsval) list option"

record EventFields =
  ev_title :: "string option"
  ev_description :: "string option"
  ev_date :: "string option"
  ev_source :: "string option"
  ev_sourceUrl :: "string option"
  ev_sentiment :: "string option"
  ev_eventType :: "string option"

record RiskFlagFields =
  rff_type :: "string option"
  rff_severity :: "string option"
  rff_description :: "string option"
  rff_source :: "string option"

record OpportunityFlagFields =
  off_type :: "string option"
  off_importance :: "string option"
  off_description :: "string option"
  off_source :: "string option"

datatype EntityOperation =
    OpCreate EntityFields
  | OpUpdate "string option" UpdateFields "string option"
  | OpAddEvent "string option" EventFields
  | OpAddRiskFlag "string option" RiskFlagFields
  | OpAddOpportunityFlag "string option" OpportunityFlagFields

text \<open>The \<open>type\<close> tag of an operation.\<close>

fun op_type :: "EntityOperation \<Rightarrow> string" where
  "op_type (OpCreate _) = ''create''"
| "op_type (OpUpdate _ _ _) = ''update''"
| "op_type (OpAddEvent _ _) = ''add_event''"
| "op_type (OpAddRiskFlag _ _) = ''add_risk_flag''"
| "op_type (OpAddOpportunityFlag _ _) = ''add_opportunity_flag''"

record IdentifiedProject =
  ip_entityId :: "string option"
  ip_name :: string
  ip_confidence :: real

record Analysis =
  an_sentiment :: "string option"
  an_eventType :: "string option"
  an_identifiedProjects :: "IdentifiedProject list option"
  an_keyInsights :: "string list option"

record AIAgentOutput =
  operations :: "EntityOperation list"
  analysis :: Analysis
  reasoning :: string

section \<open>Importance score (ai-agent, processor)\<close>

text \<open>
  \<open>calculateImportanceScore\<close>, statement by statement: \<open>score\<close> starts at 50 and each
  \<open>if (...) score += k\<close> is one step of the chain.
\<close>

definition calculateImportanceScore :: "AIAgentOutput \<Rightarrow> int" where
  "calculateImportanceScore output =
     (let score = 50;
          score = (if an_eventType (analysis output) = Some ''security'' then score + 30 else score);
          score = (if an_eventType (analysis output) = Some ''funding'' then score + 20 else score);
          score = (if an_eventType (analysis output) = Some ''regulatory'' then score + 25 else score);
          score = (if an_eventType (analysis output) = Some ''legal'' then score + 20 else score);
          score = (if an_sentiment (analysis output) = Some ''negative'' then score + 15 else score);
          score = (if an_sentiment (analysis output) = Some ''positive'' then score + 5 else score);
          projectCount = (case an_identifiedProjects (analysis output) of
                            None \<Rightarrow> 0 | Some ps \<Rightarrow> int (length ps));
          score = score + min (projectCount * 5) 15;
          riskOps = int (length (filter (\<lambda>x. op_type x = ''add_risk_flag'') (operations output)));
          oppOps = int (length (filter (\<lambda>x. op_type x = ''add_opportunity_flag'') (operations output)));
          score = score + (riskOps + oppOps) * 5
      in min (max score 0) 100)"

text \<open>
  The weighted rule in the words of the specification, for comparison with the code:
  a bonus per event type, a bonus per sentiment, 5 per identified project up to 15 in
  total, 5 per risk or opportunity operation, on a base of 50, clamped to [0,100].
\<close>

definition eventTypeBonus :: "string option \<Rightarrow> int" where
  "eventTypeBonus e =
     (if e = Some ''security'' then 30
      else if e = Some ''regulatory'' then 25
      else if e = Some ''funding'' then 20
      else if e = Some ''legal'' then 20
      else 0)"

definition sentimentBonus :: "string option \<Rightarrow> int" where
  "sentimentBonus s =
     (if s = Some ''negative'' then 15 else if s = Some ''positive'' then 5 else 0)"

fun isFlagOperation :: "EntityOperation \<Rightarrow> bool" where
  "isFlagOperation (OpAddRiskFlag _ _) = True"
| "isFlagOperation (OpAddOpportunityFlag _ _) = True"
| "isFlagOperation _ = False"

definition importanceRule :: "AIAgentOutput \<Rightarrow> int" where
  "importanceRule output =
     (let projects = (case an_identifiedProjects (analysis output) of
                        None \<Rightarrow> [] | Some ps \<Rightarrow> ps);
          total = 50
                  + eventTypeBonus (an_eventType (analysis output))
                  + sentimentBonus (an_sentiment (analysis output))
                  + min (5 * int (length projects)) 15
                  + 5 * int (length (filter isFlagOperation (operations output)))
      in if total < 0 then 0 else if total > 100 then 100 else total)"

section \<open>JavaScript built-ins used by the collectors\<close>

text \<open>
  Strings are lists of 8-bit characters, so the model covers the Latin-1 part of
  JavaScript's strings; \<open>charCodeAt\<close> is \<open>of_char\<close>. Time delays (\<open>setTimeout\<close>) and
  console output have no effect on any value and are left out throughout.
\<close>

datatype jsError = TypeError string | RangeError string | SyntaxError string | Error string

fun errorMessage :: "jsError \<Rightarrow> string" where
  "errorMessage (TypeError m) = m"
| "errorMessage (RangeError m) = m"
| "errorMessage (SyntaxError m) = m"
| "errorMessage (Error m) = m"

text \<open>\<open>Number.prototype.toString(radix)\<close> on a non-negative integer; digits beyond 9 are
  the letters from \<open>a\<close>.\<close>

definition digitChar :: "nat \<Rightarrow> char" where
  "digitChar d = (if d < 10 then char_of (48 + d) else char_of (87 + d))"

function digitsBase :: "nat \<Rightarrow> nat \<Rightarrow> string" where
  "digitsBase b n =
     (if b < 2 \<or> n < b then [digitChar n]
      else digitsBase b (n div b) @ [digitChar (n mod b)])"
  by pat_completeness auto
termination
  by (relation "measure (\<lambda>(b, n). n)") auto

declare digitsBase.simps [simp del]

definition showNat :: "nat \<Rightarrow> string" where
  "showNat n = digitsBase 10 n"

fun joinWith :: "string \<Rightarrow> string list \<Rightarrow> string" where
  "joinWith sep [] = []"
| "joinWith sep [x] = x"
| "joinWith sep (x # y # ys) = x @ sep @ joinWith sep (y # ys)"

text \<open>\<open>path.split('.')\<close>: never empty; an empty path gives one empty part.\<close>

fun splitDot :: "string \<Rightarrow> string list" where
  "splitDot [] = [[]]"
| "splitDot (c # cs) =
     (if c = CHR ''.'' then [] # splitDot cs
      else (case splitDot cs of [] \<Rightarrow> [[c]] | p # ps \<Rightarrow> (c # p) # ps))"

text \<open>\<open>s.replace(pat, rep)\<close> with a string pattern: the first occurrence only.\<close>

fun replaceFirst :: "string \<Rightarrow> string \<Rightarrow> string \<Rightarrow> string" where
  "replaceFirst pat rep [] = (if pat = [] then rep else [])"
| "replaceFirst pat rep (c # cs) =
     (if take (length pat) (c # cs) = pat then rep @ drop (length pat) (c # cs)
      else c # replaceFirst pat rep cs)"

text \<open>Truthiness, \<open>a || b\<close> and \<open>String(v)\<close>.\<close>

fun truthy :: "jsval \<Rightarrow> bool" where
  "truthy JUndefined = False"
| "truthy JNull = False"
| "truthy (JBool b) = b"
| "truthy (JNumber s) = (s \<noteq> ''0'' \<and> s \<noteq> ''NaN'')"
| "truthy (JString s) = (s \<noteq> [])"
| "truthy (JArray _) = True"
| "truthy (JObject _) = True"

definition jsOr :: "jsval \<Rightarrow> jsval \<Rightarrow> jsval" where
  "jsOr a b = (if truthy a then a else b)"

fun jsString :: "jsval \<Rightarrow> string" and jsStringElems :: "jsval list \<Rightarrow> string list" where
  "jsString JUndefined = ''undefined''"
| "jsString JNull = ''null''"
| "jsString (JBool b) = (if b then ''true'' else ''false'')"
| "jsString (JNumber s) = s"
| "jsString (JString s) = s"
| "jsString (JArray xs) = joinWith '','' (jsStringElems xs)"
| "jsString (JObject kvs) = ''[object Object]''"
| "jsStringElems [] = []"
| "jsStringElems (x # xs) =
     (if x = JNull \<or> x = JUndefined then [] else jsString x) # jsStringElems xs"

text \<open>
  \<open>JSON.stringify(v)\<close> without indentation. Control characters, the quote and the
  backslash are escaped; \<open>undefined\<close> is \<open>null\<close> inside an array and drops its property
  inside an object.
\<close>

definition escapeChar :: "char \<Rightarrow> string" where
  "escapeChar c =
     (let n = (of_char c :: nat) in
      if n = 34 then [CHR 0x5C, CHR 0x22]
      else if n = 92 then [CHR 0x5C, CHR 0x5C]
      else if n = 8 then [CHR 0x5C, CHR ''b'']
      else if n = 12 then [CHR 0x5C, CHR ''f'']
      else if n = 10 then [CHR 0x5C, CHR ''n'']
      else if n = 13 then [CHR 0x5C, CHR ''r'']
      else if n = 9 then [CHR 0x5C, CHR ''t'']
      else if n < 32 then
        [CHR 0x5C, CHR ''u'', CHR ''0'', CHR ''0'', digitChar (n div 16), digitChar (n mod 16)]
      else [c])"

definition quoteJSON :: "string \<Rightarrow> string" where
  "quoteJSON s = CHR 0x22 # concat (map escapeChar s) @ [CHR 0x22]"

fun stringifyValue :: "jsval \<Rightarrow> string"
  and stringifyElems :: "jsval list \<Rightarrow> string list"
  and stringifyProps :: "(string \<times> jsval) list \<Rightarrow> string list" where
  "stringifyValue JUndefined = ''null''"
| "stringifyValue JNull = ''null''"
| "stringifyValue (JBool b) = (if b then ''true'' else ''false'')"
| "stringifyValue (JNumber s) =
     (if s = ''NaN'' \<or> s = ''Infinity'' \<or> s = ''-Infinity'' then ''null'' else s)"
| "stringifyValue (JString s) = quoteJSON s"
| "stringifyValue (JArray xs) = ''['' @ joinWith '','' (stringifyElems xs) @ '']''"
| "stringifyValue (JObject kvs) = ''{'' @ joinWith '','' (stringifyProps kvs) @ ''}''"
| "stringifyElems [] = []"
| "stringifyElems (x # xs) = stringifyValue x # stringifyElems xs"
| "stringifyProps [] = []"
| "stringifyProps ((k, v) # kvs) =
     (if v = JUndefined then stringifyProps kvs
      else (quoteJSON k @ '':'' @ stringifyValue v) # stringifyProps kvs)"

text \<open>
  The built-ins that depend on calendar arithmetic, floating-point parsing or Unicode
  tables are parameters of the model:
  \<^item> \<open>rt_toISO s\<close> is \<open>new Date(s).toISOString()\<close>, \<open>None\<close> when the date is invalid (the
    call then throws a RangeError);
  \<^item> \<open>rt_getTime s\<close> is \<open>new Date(s).getTime()\<close> in milliseconds, \<open>None\<close> for NaN;
  \<^item> \<open>rt_number s\<close> is the text of \<open>Number(s)\<close> for a string \<open>s\<close>;
  \<^item> \<open>rt_lower\<close> and \<open>rt_upper\<close> are \<open>toLowerCase\<close> and \<open>toUpperCase\<close>.
\<close>

record runtime =
  rt_toISO :: "string \<Rightarrow> string option"
  rt_getTime :: "string \<Rightarrow> int option"
  rt_number :: "string \<Rightarrow> string"
  rt_lower :: "string \<Rightarrow> string"
  rt_upper :: "string \<Rightarrow> string"

text \<open>\<open>Number(v)\<close>, as the text of the resulting number.\<close>

fun toNumber :: "runtime \<Rightarrow> jsval \<Rightarrow> string" where
  "toNumber rt JUndefined = ''NaN''"
| "toNumber rt JNull = ''0''"
| "toNumber rt (JBool b) = (if b then ''1'' else ''0'')"
| "toNumber rt (JNumber s) = s"
| "toNumber rt (JString s) = rt_number rt s"
| "toNumber rt (JArray xs) = rt_number rt (jsString (JArray xs))"
| "toNumber rt (JObject kvs) = ''NaN''"

section \<open>Content hash and record identity (types/info.ts)\<close>

text \<open>
  \<open>generateContentHash\<close>. \<open>hash << 5\<close> and \<open>hash & hash\<close> convert to a signed 32-bit
  integer (\<open>toInt32\<close>); the subtraction and the addition between them are exact.
\<close>

definition toInt32 :: "int \<Rightarrow> int" where
  "toInt32 x = (let m = x mod 2 ^ 32 in if m \<ge> 2 ^ 31 then m - 2 ^ 32 else m)"

fun hashLoop :: "int \<Rightarrow> string \<Rightarrow> int" where
  "hashLoop hash [] = hash"
| "hashLoop hash (c # cs) =
     (let char = int (of_char c);
          hash = (toInt32 (toInt32 hash * 2 ^ 5) - hash) + char;
          hash = toInt32 hash
      in hashLoop hash cs)"

definition generateContentHash :: "string \<Rightarrow> string" where
  "generateContentHash content = digitsBase 36 (nat \<bar>hashLoop 0 content\<bar>)"

definition generateProjectInfoId :: "string \<Rightarrow> string \<Rightarrow> string" where
  "generateProjectInfoId source sourceId = source @ '':'' @ sourceId"

section \<open>Source configuration (types/source-config.ts)\<close>

text \<open>
  A mapping rule is a path (\<open>typeof rule === 'string'\<close>) or a \<open>FieldMappingRule\<close>; an absent
  \<open>default\<close> is \<open>JUndefined\<close>. A \<open>FieldMapping\<close> is the list \<open>Object.entries\<close> yields.
\<close>

record FieldMappingRule =
  fmr_source :: string
  fmr_transform :: "string option"
  fmr_default :: jsval

datatype FieldRule = PathRule string | MappingRule FieldMappingRule

type_synonym FieldMapping = "(string \<times> FieldRule) list"

record RestApiEndpoint =
  ep_path :: string
  ep_method :: string
  ep_mapping :: FieldMapping
  ep_limit :: "int option"

text \<open>
  \<open>endpoints\<close> is declared required, but a stored configuration is not checked when it
  is read (\<open>validateConfig\<close> tests \<open>!config.endpoints\<close>): \<open>None\<close> is a configuration
  without the field.
\<close>

record RestApiConfig =
  rc_baseUrl :: string
  rc_endpoints :: "RestApiEndpoint list option"
  rc_requestDelay :: "int option"

record RssConfig =
  rss_url :: string
  rss_maxItems :: "int option"
  rss_userAgent :: "string option"
  rss_language :: "string option"

datatype CollectorConfig = RestApi RestApiConfig | Rss RssConfig | OtherConfig

record CollectionStats =
  totalCollected :: int
  successCount :: int
  failedCount :: int
  lastItemCount :: int

record SourceConfig =
  sc_id :: string
  sc_type :: string
  sc_sourceId :: string
  sc_name :: string
  sc_enabled :: bool
  sc_enabledStr :: string
  sc_collectorType :: string
  sc_config :: CollectorConfig
  sc_intervalMinutes :: real
  sc_priority :: real
  sc_lastCollectedAt :: "string option"
  sc_lastCollectStatus :: "string option"
  sc_lastCollectError :: "string option"
  sc_stats :: "CollectionStats option"
  sc_createdAt :: string
  sc_updatedAt :: string

record CollectorStats =
  totalFetched :: int
  savedCount :: int
  skippedCount :: int

subsection \<open>Raw records (types/info.ts)\<close>

record ProjectInfo =
  pi_id :: string
  pi_source :: string
  pi_sourceId :: string
  pi_rawData :: jsval
  pi_name :: string
  pi_logo :: "string option"
  pi_website :: "string option"
  pi_description :: "string option"
  pi_sourceCategory :: "string option"
  pi_twitter :: "string option"
  pi_tokenSymbol :: "string option"
  pi_collectedAt :: string
  pi_processedStatus :: string
  pi_dataHash :: "string option"

record MarketInfo =
  mi_id :: string
  mi_source :: string
  mi_rawData :: jsval
  mi_title :: string
  mi_content :: string
  mi_url :: "string option"
  mi_publishedAt :: string
  mi_author :: "string option"
  mi_tags :: "string list option"
  mi_language :: "string option"
  mi_collectedAt :: string
  mi_processedStatus :: string
  mi_contentHash :: "string option"
  mi_ttl :: "int option"
  mi_publishedDate :: "string option"

text \<open>
  \<open>CollectorResult.items\<close> is \<open>unknown[]\<close>; the coordinator casts an item to the record
  type of the source (\<open>item as ProjectInfo\<close>) and reads \<open>id\<close> and \<open>dataHash\<close> from it. A
  \<open>MarketInfo\<close> has no \<open>dataHash\<close> field.
\<close>

datatype info = PI ProjectInfo | MI MarketInfo

fun infoId :: "info \<Rightarrow> string" where
  "infoId (PI p) = pi_id p"
| "infoId (MI m) = mi_id m"

fun infoDataHash :: "info \<Rightarrow> string option" where
  "infoDataHash (PI p) = pi_dataHash p"
| "infoDataHash (MI m) = None"

record CollectorResult =
  cr_success :: bool
  cr_items :: "info list"
  cr_error :: "string option"
  cr_stats :: CollectorStats

section \<open>Collectors (packages/collector/src/collectors)\<close>

subsection \<open>BaseCollector\<close>

definition successResult :: "info list \<Rightarrow> CollectorStats \<Rightarrow> CollectorResult" where
  "successResult items stats =
     \<lparr>cr_success = True, cr_items = items, cr_error = None, cr_stats = stats\<rparr>"

definition failedResult :: "string \<Rightarrow> CollectorResult" where
  "failedResult error =
     \<lparr>cr_success = False, cr_items = [], cr_error = Some error,
      cr_stats = \<lparr>totalFetched = 0, savedCount = 0, skippedCount = 0\<rparr>\<rparr>"

subsection \<open>RestApiCollector: field mapping\<close>

text \<open>
  Property access \<open>current[part]\<close> on an object or an array. Only own properties are
  modelled (for an array its indices and \<open>length\<close>); properties inherited from the
  prototype (\<open>constructor\<close>, \<open>toString\<close>, ...) are outside the model.
\<close>

definition isDigit :: "char \<Rightarrow> bool" where
  "isDigit c = (48 \<le> (of_char c :: nat) \<and> (of_char c :: nat) \<le> 57)"

fun digitsValue :: "nat \<Rightarrow> string \<Rightarrow> nat" where
  "digitsValue acc [] = acc"
| "digitsValue acc (c # cs) = digitsValue (acc * 10 + (of_char c - 48)) cs"

definition arrayIndex :: "string \<Rightarrow> nat option" where
  "arrayIndex k =
     (if k \<noteq> [] \<and> list_all isDigit k \<and> (k = ''0'' \<or> hd k \<noteq> CHR ''0'')
      then Some (digitsValue 0 k) else None)"

fun getProp :: "jsval \<Rightarrow> string \<Rightarrow> jsval" where
  "getProp (JObject kvs) k = (case map_of kvs k of None \<Rightarrow> JUndefined | Some v \<Rightarrow> v)"
| "getProp (JArray xs) k =
     (if k = ''length'' then JNumber (showNat (length xs))
      else (case arrayIndex k of
              None \<Rightarrow> JUndefined
            | Some i \<Rightarrow> if i < length xs then xs ! i else JUndefined))"
| "getProp _ k = JUndefined"

fun isObjectType :: "jsval \<Rightarrow> bool" where
  "isObjectType (JObject _) = True"
| "isObjectType (JArray _) = True"
| "isObjectType JNull = True"
| "isObjectType _ = False"

text \<open>\<open>getNestedValue\<close>: the loop over the parts of the path.\<close>

fun walkPath :: "jsval \<Rightarrow> string list \<Rightarrow> jsval" where
  "walkPath current [] = current"
| "walkPath current (part # parts) =
     (if current = JNull \<or> current = JUndefined then JUndefined
      else if isObjectType current then walkPath (getProp current part) parts
      else JUndefined)"

definition getNestedValue :: "jsval \<Rightarrow> string \<Rightarrow> jsval" where
  "getNestedValue obj path = walkPath obj (splitDot path)"

definition transformValue :: "runtime \<Rightarrow> jsval \<Rightarrow> string \<Rightarrow> jsError + jsval" where
  "transformValue rt v transform =
     (if transform = ''string'' then Inr (JString (jsString v))
      else if transform = ''number'' then Inr (JNumber (toNumber rt v))
      else if transform = ''date'' then
        (case rt_toISO rt (jsString v) of
           None \<Rightarrow> Inl (RangeError ''Invalid time value'')
         | Some isoText \<Rightarrow> Inr (JString isoText))
      else if transform = ''array'' then
        Inr (case v of JArray xs \<Rightarrow> v | _ \<Rightarrow> JArray [v])
      else if transform = ''lowercase'' then Inr (JString (rt_lower rt (jsString v)))
      else if transform = ''uppercase'' then Inr (JString (rt_upper rt (jsString v)))
      else Inr v)"

text \<open>One iteration of the loop of \<open>applyMapping\<close>: the value stored under the target.\<close>

definition applyRule :: "runtime \<Rightarrow> jsval \<Rightarrow> FieldRule \<Rightarrow> jsError + jsval" where
  "applyRule rt data rule =
     (case rule of
        PathRule path \<Rightarrow> Inr (getNestedValue data path)
      | MappingRule mappingRule \<Rightarrow>
          (let v = getNestedValue data (fmr_source mappingRule);
               v = (if v = JUndefined \<and> fmr_default mappingRule \<noteq> JUndefined
                    then fmr_default mappingRule else v)
           in if v \<noteq> JUndefined \<and> fmr_transform mappingRule \<noteq> None
                 \<and> fmr_transform mappingRule \<noteq> Some []
              then transformValue rt v (the (fmr_transform mappingRule))
              else Inr v))"

fun applyMapping ::
  "runtime \<Rightarrow> jsval \<Rightarrow> FieldMapping \<Rightarrow> jsError + (string \<times> jsval) list" where
  "applyMapping rt data [] = Inr []"
| "applyMapping rt data ((targetField, rule) # rest) =
     (case applyRule rt data rule of
        Inl e \<Rightarrow> Inl e
      | Inr v \<Rightarrow>
          (case applyMapping rt data rest of
             Inl e \<Rightarrow> Inl e
           | Inr result \<Rightarrow> Inr ((targetField, v) # result)))"

text \<open>\<open>mappedData.name\<close>: a missing property reads as \<open>undefined\<close>.\<close>

definition fieldOf :: "(string \<times> jsval) list \<Rightarrow> string \<Rightarrow> jsval" where
  "fieldOf mappedData k = (case map_of mappedData k of None \<Rightarrow> JUndefined | Some v \<Rightarrow> v)"

subsection \<open>RestApiCollector: requests\<close>

text \<open>
  What one call of \<open>fetch\<close> does: it rejects, or it resolves to a response with a status,
  a status text, a body text and the value of \<open>response.json()\<close> (\<open>None\<close> when that
  rejects). The network is a parameter: \<open>net url method i\<close> is the outcome of attempt
  \<open>i\<close> for that request.
\<close>

datatype httpOutcome =
    NetworkFailure string
  | HttpResponse nat string string "jsval option"

type_synonym network = "string \<Rightarrow> string \<Rightarrow> nat \<Rightarrow> httpOutcome"

definition responseOk :: "nat \<Rightarrow> bool" where
  "responseOk status = (200 \<le> status \<and> status \<le> 299)"

function fetchWithRetry :: "(nat \<Rightarrow> httpOutcome) \<Rightarrow> nat \<Rightarrow> nat \<Rightarrow> jsError + jsval" where
  "fetchWithRetry attempt retries i =
     (if i < retries then
        (case attempt i of
           NetworkFailure m \<Rightarrow>
             if i = retries - 1 then Inl (Error m)
             else fetchWithRetry attempt retries (i + 1)
         | HttpResponse status statusText bodyText json \<Rightarrow>
             if status = 429 then fetchWithRetry attempt retries (i + 1)
             else if \<not> responseOk status then
               (if i = retries - 1
                then Inl (Error (''HTTP '' @ showNat status @ '': '' @ statusText))
                else fetchWithRetry attempt retries (i + 1))
             else
               (case json of
                  None \<Rightarrow>
                    if i = retries - 1 then Inl (SyntaxError ''Unexpected token'')
                    else fetchWithRetry attempt retries (i + 1)
                | Some data \<Rightarrow> Inr data))
      else Inl (Error ''Max retries exceeded''))"
  by pat_completeness auto
termination
  by (relation "measure (\<lambda>(attempt, retries, i). retries - i)") auto

declare fetchWithRetry.simps [simp del]

text \<open>\<open>items.slice(0, limit)\<close>; a negative limit counts from the end.\<close>

definition sliceTo :: "int \<Rightarrow> 'a list \<Rightarrow> 'a list" where
  "sliceTo limit xs =
     (if limit \<ge> 0 then take (nat limit) xs else take (length xs - nat (- limit)) xs)"

definition toStringOrUndefined :: "jsval \<Rightarrow> string option" where
  "toStringOrUndefined v = (if v = JNull \<or> v = JUndefined then None else Some (jsString v))"

text \<open>
  The body of \<open>limitedItems.map\<close> in \<open>fetchEndpoint\<close>. \<open>now\<close> is the ISO text of the
  clock and \<open>random\<close> the number that \<open>Math.random()\<close> returns for this item.
\<close>

definition toInfo ::
  "runtime \<Rightarrow> string \<Rightarrow> string \<Rightarrow> SourceConfig \<Rightarrow> FieldMapping \<Rightarrow> jsval \<Rightarrow> jsError + info" where
  "toInfo rt now random sourceConfig mapping item =
     (case applyMapping rt item mapping of
        Inl e \<Rightarrow> Inl e
      | Inr mappedData \<Rightarrow>
          (let source = sc_sourceId sourceConfig;
               rawData = item;
               dataHash = generateContentHash (stringifyValue rawData);
               sourceId = jsString (jsOr (jsOr (jsOr (fieldOf mappedData ''id'')
                                                     (fieldOf mappedData ''slug''))
                                               (fieldOf mappedData ''symbol''))
                                         (JNumber random))
           in if sc_type sourceConfig = ''project_info'' then
                Inr (PI \<lparr>pi_id = generateProjectInfoId source sourceId,
                         pi_source = source,
                         pi_sourceId = sourceId,
                         pi_rawData = rawData,
                         pi_name = jsString (jsOr (fieldOf mappedData ''name'') (JString sourceId)),
                         pi_logo = toStringOrUndefined
                                     (jsOr (fieldOf mappedData ''image'') (fieldOf mappedData ''logo'')),
                         pi_website = toStringOrUndefined
                                     (jsOr (fieldOf mappedData ''url'') (fieldOf mappedData ''website'')),
                         pi_description = toStringOrUndefined (fieldOf mappedData ''description''),
                         pi_sourceCategory = toStringOrUndefined
                                     (jsOr (fieldOf mappedData ''category'')
                                           (fieldOf mappedData ''sourceCategory'')),
                         pi_twitter = toStringOrUndefined
                                     (jsOr (fieldOf mappedData ''twitter'')
                                           (fieldOf mappedData ''twitter_handle'')),
                         pi_tokenSymbol = toStringOrUndefined
                                     (jsOr (fieldOf mappedData ''symbol'')
                                           (fieldOf mappedData ''tokenSymbol'')),
                         pi_collectedAt = now,
                         pi_processedStatus = ''pending'',
                         pi_dataHash = Some dataHash\<rparr>)
              else
                Inr (MI \<lparr>mi_id = source @ ''-'' @ dataHash,
                         mi_source = source,
                         mi_rawData = rawData,
                         mi_title = jsString (jsOr (jsOr (fieldOf mappedData ''title'')
                                                         (fieldOf mappedData ''name''))
                                                   (JString [])),
                         mi_content = jsString (jsOr (jsOr (fieldOf mappedData ''content'')
                                                           (fieldOf mappedData ''description''))
                                                     (JString [])),
                         mi_url = toStringOrUndefined (fieldOf mappedData ''url''),
                         mi_publishedAt = jsString (jsOr (fieldOf mappedData ''publishedAt'')
                                                         (JString now)),
                         mi_author = None,
                         mi_tags = None,
                         mi_language = None,
                         mi_collectedAt = now,
                         mi_processedStatus = ''pending'',
                         mi_contentHash = Some dataHash,
                         mi_ttl = None,
                         mi_publishedDate = None\<rparr>)))"

text \<open>\<open>Array.prototype.map\<close> with a callback that may throw: the first exception ends it.
  The callback gets the position of the item.\<close>

fun mapItems :: "(nat \<Rightarrow> 'a \<Rightarrow> jsError + 'b) \<Rightarrow> nat \<Rightarrow> 'a list \<Rightarrow> jsError + 'b list" where
  "mapItems f k [] = Inr []"
| "mapItems f k (x # xs) =
     (case f k x of
        Inl e \<Rightarrow> Inl e
      | Inr y \<Rightarrow> (case mapItems f (Suc k) xs of Inl e \<Rightarrow> Inl e | Inr ys \<Rightarrow> Inr (y # ys)))"

definition fetchEndpoint ::
  "runtime \<Rightarrow> network \<Rightarrow> string \<Rightarrow> (nat \<Rightarrow> string) \<Rightarrow> SourceConfig \<Rightarrow> RestApiConfig \<Rightarrow>
   RestApiEndpoint \<Rightarrow> jsError + info list" where
  "fetchEndpoint rt net now random sourceConfig config endpoint =
     (let url = rc_baseUrl config @ ep_path endpoint in
      case fetchWithRetry (net url (ep_method endpoint)) 3 0 of
        Inl e \<Rightarrow> Inl e
      | Inr data \<Rightarrow>
          (let items = (case data of JArray xs \<Rightarrow> xs | _ \<Rightarrow> [data]);
               limitedItems = (case ep_limit endpoint of
                                 None \<Rightarrow> items
                               | Some l \<Rightarrow> if l \<noteq> 0 then sliceTo l items else items)
           in mapItems (\<lambda>k item. toInfo rt now (random k) sourceConfig (ep_mapping endpoint) item)
                0 limitedItems))"

text \<open>
  \<open>RestApiCollector.collect\<close>. The loop over the endpoints catches the exception of each
  \<open>fetchEndpoint\<close> and goes on; a configuration that is not a REST configuration, or has
  no \<open>endpoints\<close>, makes the loop header throw a TypeError, which the outer \<open>catch\<close> turns
  into a failed result. \<open>random e k\<close> is the value of \<open>Math.random()\<close> for item \<open>k\<close> of
  endpoint \<open>e\<close>.
\<close>

fun collectEndpoints ::
  "runtime \<Rightarrow> network \<Rightarrow> string \<Rightarrow> (nat \<Rightarrow> nat \<Rightarrow> string) \<Rightarrow> SourceConfig \<Rightarrow> RestApiConfig \<Rightarrow>
   nat \<Rightarrow> RestApiEndpoint list \<Rightarrow> info list" where
  "collectEndpoints rt net now random sourceConfig config e [] = []"
| "collectEndpoints rt net now random sourceConfig config e (endpoint # rest) =
     (case fetchEndpoint rt net now (random e) sourceConfig config endpoint of
        Inl err \<Rightarrow> []
      | Inr items \<Rightarrow> items)
     @ collectEndpoints rt net now random sourceConfig config (Suc e) rest"

definition restCollect ::
  "runtime \<Rightarrow> network \<Rightarrow> string \<Rightarrow> (nat \<Rightarrow> nat \<Rightarrow> string) \<Rightarrow> SourceConfig \<Rightarrow> CollectorResult" where
  "restCollect rt net now random sourceConfig =
     (case sc_config sourceConfig of
        RestApi config \<Rightarrow>
          (case rc_endpoints config of
             None \<Rightarrow> failedResult ''config.endpoints is not iterable''
           | Some endpoints \<Rightarrow>
               (let allItems = collectEndpoints rt net now random sourceConfig config 0 endpoints
                in successResult allItems
                     \<lparr>totalFetched = int (length allItems),
                      savedCount = int (length allItems),
                      skippedCount = 0\<rparr>))
      | _ \<Rightarrow> failedResult ''config.endpoints is not iterable'')"

subsection \<open>RssCollector\<close>

record FeedItem =
  fi_title :: string
  fi_link :: "string option"
  fi_description :: string
  fi_pubDate :: "string option"
  fi_author :: "string option"
  fi_category :: "string option"

text \<open>\<open>FeedItem\<close> as \<open>rawData\<close>: the object literal built by the parser.\<close>

definition optionalString :: "string option \<Rightarrow> jsval" where
  "optionalString s = (case s of None \<Rightarrow> JUndefined | Some t \<Rightarrow> JString t)"

definition feedItemValue :: "FeedItem \<Rightarrow> jsval" where
  "feedItemValue item =
     JObject [(''title'', JString (fi_title item)),
              (''link'', optionalString (fi_link item)),
              (''description'', JString (fi_description item)),
              (''pubDate'', optionalString (fi_pubDate item)),
              (''author'', optionalString (fi_author item)),
              (''category'', optionalString (fi_category item))]"

text \<open>
  The body of \<open>items.slice(0, maxItems).map\<close> in \<open>RssCollector.collect\<close>. In
  \<open>item.title + item.link\<close> an absent link is the text \<open>undefined\<close>. An unparsable
  \<open>pubDate\<close> is caught and replaced by \<open>now\<close>.
\<close>

definition takeUntil :: "char \<Rightarrow> string \<Rightarrow> string" where
  "takeUntil c s = takeWhile (\<lambda>x. x \<noteq> c) s"

definition truthyString :: "string option \<Rightarrow> bool" where
  "truthyString s = (s \<noteq> None \<and> s \<noteq> Some [])"

definition toMarketInfo ::
  "runtime \<Rightarrow> string \<Rightarrow> int \<Rightarrow> SourceConfig \<Rightarrow> RssConfig \<Rightarrow> FeedItem \<Rightarrow> MarketInfo" where
  "toMarketInfo rt now ttl sourceConfig config item =
     (let contentHash = generateContentHash
                          (fi_title item @ (case fi_link item of None \<Rightarrow> ''undefined'' | Some l \<Rightarrow> l));
          ident = replaceFirst ''rss:'' [] (sc_sourceId sourceConfig) @ ''-'' @ contentHash;
          publishedAt = (if truthyString (fi_pubDate item) then
                           (case rt_toISO rt (the (fi_pubDate item)) of
                              None \<Rightarrow> now
                            | Some isoText \<Rightarrow> isoText)
                         else now);
          publishedDate = takeUntil CHR ''T'' publishedAt
      in \<lparr>mi_id = ident,
          mi_source = sc_sourceId sourceConfig,
          mi_rawData = feedItemValue item,
          mi_title = fi_title item,
          mi_content = fi_description item,
          mi_url = (if truthyString (fi_link item) then fi_link item else None),
          mi_publishedAt = publishedAt,
          mi_author = (if truthyString (fi_author item) then fi_author item else None),
          mi_tags = (if truthyString (fi_category item) then Some [the (fi_category item)] else None),
          mi_language = Some (if truthyString (rss_language config)
                              then the (rss_language config) else ''en''),
          mi_collectedAt = now,
          mi_processedStatus = ''pending'',
          mi_contentHash = Some contentHash,
          mi_ttl = Some ttl,
          mi_publishedDate = Some publishedDate\<rparr>)"

text \<open>
  \<open>RssCollector.collect\<close>. The feed parser (\<open>parseFeedItems\<close>, a chain of regular
  expressions over the XML text) is a parameter; \<open>ttl\<close> is \<open>calculateTTL(30)\<close>, a function
  of the clock.
\<close>

definition rssCollect ::
  "runtime \<Rightarrow> network \<Rightarrow> (string \<Rightarrow> FeedItem list) \<Rightarrow> string \<Rightarrow> int \<Rightarrow> SourceConfig \<Rightarrow>
   CollectorResult" where
  "rssCollect rt net parseFeedItems now ttl sourceConfig =
     (case sc_config sourceConfig of
        Rss config \<Rightarrow>
          (case net (rss_url config) ''GET'' 0 of
             NetworkFailure m \<Rightarrow> failedResult m
           | HttpResponse status statusText xml json \<Rightarrow>
               if \<not> responseOk status
               then failedResult (''HTTP '' @ showNat status @ '': '' @ statusText)
               else
                 (let items = parseFeedItems xml;
                      maxItems = (case rss_maxItems config of
                                    None \<Rightarrow> 20 | Some m \<Rightarrow> if m = 0 then 20 else m);
                      marketInfoItems = map (toMarketInfo rt now ttl sourceConfig config)
                                            (sliceTo maxItems items)
                  in successResult (map MI marketInfoItems)
                       \<lparr>totalFetched = int (length marketInfoItems),
                        savedCount = int (length marketInfoItems),
                        skippedCount = int (length items) - int (length marketInfoItems)\<rparr>))
      | _ \<Rightarrow> failedResult ''fetch failed'')"

section \<open>Ingestion coordinator (packages/collector/src/scheduler.ts)\<close>

text \<open>
  The stores and the queue. A table maps the key \<open>id\<close> to the stored item; the queue is
  the list of the messages sent, oldest first. \<open>infra\<close> holds what the code cannot see
  in advance: the queue URL of the environment and whether a call to the store or the
  queue for a given record throws.
\<close>

record SQSMessage =
  msg_type :: string
  msg_infoId :: string

record world =
  sourceConfigs :: "SourceConfig list"
  projectInfoTable :: "string \<rightharpoonup> info"
  marketInfoTable :: "string \<rightharpoonup> info"
  queue :: "SQSMessage list"

record infra =
  INFO_QUEUE_URL :: "string option"
  getFails :: "string \<Rightarrow> bool"
  putFails :: "string \<Rightarrow> bool"
  sendFails :: "string \<Rightarrow> bool"

definition isDuplicateProjectInfo :: "infra \<Rightarrow> world \<Rightarrow> info \<Rightarrow> bool" where
  "isDuplicateProjectInfo infr w info =
     (if getFails infr (infoId info) then False
      else (case projectInfoTable w (infoId info) of
              None \<Rightarrow> False
            | Some item \<Rightarrow> infoDataHash item = infoDataHash info))"

definition isDuplicateMarketInfo :: "infra \<Rightarrow> world \<Rightarrow> info \<Rightarrow> bool" where
  "isDuplicateMarketInfo infr w info =
     (if getFails infr (infoId info) then False
      else marketInfoTable w (infoId info) \<noteq> None)"

definition saveProjectInfo :: "infra \<Rightarrow> world \<Rightarrow> info \<Rightarrow> world \<times> (jsError + bool)" where
  "saveProjectInfo infr w info =
     (if isDuplicateProjectInfo infr w info then (w, Inr False)
      else if putFails infr (infoId info) then (w, Inl (Error ''PutCommand failed''))
      else (w\<lparr>projectInfoTable := (projectInfoTable w)(infoId info \<mapsto> info)\<rparr>, Inr True))"

definition saveMarketInfo :: "infra \<Rightarrow> world \<Rightarrow> info \<Rightarrow> world \<times> (jsError + bool)" where
  "saveMarketInfo infr w info =
     (if isDuplicateMarketInfo infr w info then (w, Inr False)
      else if putFails infr (infoId info) then (w, Inl (Error ''PutCommand failed''))
      else (w\<lparr>marketInfoTable := (marketInfoTable w)(infoId info \<mapsto> info)\<rparr>, Inr True))"

definition sendToQueue :: "infra \<Rightarrow> world \<Rightarrow> SQSMessage \<Rightarrow> world \<times> (jsError + unit)" where
  "sendToQueue infr w message =
     (if INFO_QUEUE_URL infr = None \<or> INFO_QUEUE_URL infr = Some [] then (w, Inr ())
      else if sendFails infr (msg_infoId message) then (w, Inl (Error ''SendMessageCommand failed''))
      else (w\<lparr>queue := queue w @ [message]\<rparr>, Inr ()))"

text \<open>The messages \<open>sendToQueue\<close> adds for a saved project record: none without a queue URL.\<close>

definition queuedFor :: "infra \<Rightarrow> info \<Rightarrow> SQSMessage list" where
  "queuedFor infr item =
     (if INFO_QUEUE_URL infr = None \<or> INFO_QUEUE_URL infr = Some [] then []
      else [\<lparr>msg_type = ''project_info'', msg_infoId = infoId item\<rparr>])"

text \<open>The callback of \<open>batch.map\<close> in \<open>processCollectorResult\<close>, for one item.\<close>

definition processItem ::
  "infra \<Rightarrow> SourceConfig \<Rightarrow> world \<Rightarrow> info \<Rightarrow> world \<times> (jsError + bool)" where
  "processItem infr sourceConfig w item =
     (if sc_type sourceConfig = ''project_info'' then
        (case saveProjectInfo infr w item of
           (w1, Inl e) \<Rightarrow> (w1, Inl e)
         | (w1, Inr wasSaved) \<Rightarrow>
             if wasSaved then
               (case sendToQueue infr w1 \<lparr>msg_type = ''project_info'', msg_infoId = infoId item\<rparr> of
                  (w2, Inl e) \<Rightarrow> (w2, Inl e)
                | (w2, Inr u) \<Rightarrow> (w2, Inr True))
             else (w1, Inr False))
      else
        (case saveMarketInfo infr w item of
           (w1, Inl e) \<Rightarrow> (w1, Inl e)
         | (w1, Inr wasSaved) \<Rightarrow>
             if wasSaved then
               (case sendToQueue infr w1 \<lparr>msg_type = ''market_info'', msg_infoId = infoId item\<rparr> of
                  (w2, Inl e) \<Rightarrow> (w2, Inl e)
                | (w2, Inr u) \<Rightarrow> (w2, Inr True))
             else (w1, Inr False)))"

text \<open>
  One batch under \<open>Promise.all\<close>. Every callback of the batch runs, also after one of
  them has thrown; the batch then rejects. The callbacks are taken one after the other
  in list order, which is what the concurrent run amounts to when the ids of a batch
  differ (the steps of different records touch different keys).
\<close>

fun processBatch ::
  "infra \<Rightarrow> SourceConfig \<Rightarrow> world \<Rightarrow> info list \<Rightarrow> world \<times> (jsError + bool) list" where
  "processBatch infr sourceConfig w [] = (w, [])"
| "processBatch infr sourceConfig w (item # batch) =
     (case processItem infr sourceConfig w item of
        (w1, r) \<Rightarrow>
          (case processBatch infr sourceConfig w1 batch of
             (w2, rs) \<Rightarrow> (w2, r # rs)))"

fun firstError :: "(jsError + bool) list \<Rightarrow> jsError option" where
  "firstError [] = None"
| "firstError (Inl e # rs) = Some e"
| "firstError (Inr b # rs) = firstError rs"

definition countResults :: "bool \<Rightarrow> (jsError + bool) list \<Rightarrow> int" where
  "countResults b rs = int (length (filter (\<lambda>r. r = Inr b) rs))"

function processBatches ::
  "infra \<Rightarrow> SourceConfig \<Rightarrow> world \<Rightarrow> info list \<Rightarrow> int \<Rightarrow> int \<Rightarrow> world \<times> (jsError + int \<times> int)" where
  "processBatches infr sourceConfig w items saved skipped =
     (if items = [] then (w, Inr (saved, skipped))
      else
        (case processBatch infr sourceConfig w (take 10 items) of
           (w1, results) \<Rightarrow>
             (case firstError results of
                Some e \<Rightarrow> (w1, Inl e)
              | None \<Rightarrow>
                  processBatches infr sourceConfig w1 (drop 10 items)
                    (saved + countResults True results)
                    (skipped + countResults False results))))"
  by pat_completeness auto
termination
  by (relation "measure (\<lambda>(infr, sourceConfig, w, items, saved, skipped). length items)") auto

declare processBatches.simps [simp del]

definition processCollectorResult ::
  "infra \<Rightarrow> SourceConfig \<Rightarrow> world \<Rightarrow> CollectorResult \<Rightarrow> world \<times> (jsError + int \<times> int)" where
  "processCollectorResult infr sourceConfig w result =
     processBatches infr sourceConfig w (cr_items result) 0 0"

subsection \<open>Source configuration service (services/source-config.ts)\<close>

definition getSourceConfig :: "world \<Rightarrow> string \<Rightarrow> SourceConfig option" where
  "getSourceConfig w ident = find (\<lambda>c. sc_id c = ident) (sourceConfigs w)"


text \<open>
  \<open>updateSourceCollectionStatus\<close>; \<open>itemCount || 0\<close> reads an absent count as 0. The
  update expression sets the fields of the record with the given key.
\<close>

definition updateSourceCollectionStatus ::
  "string \<Rightarrow> world \<Rightarrow> string \<Rightarrow> string \<Rightarrow> string option \<Rightarrow> int option \<Rightarrow> world" where
  "updateSourceCollectionStatus now w ident status error itemCount =
     (case getSourceConfig w ident of
        None \<Rightarrow> w
      | Some config \<Rightarrow>
          (let currentStats = (case sc_stats config of
                                 None \<Rightarrow> \<lparr>totalCollected = 0, successCount = 0,
                                          failedCount = 0, lastItemCount = 0\<rparr>
                               | Some s \<Rightarrow> s);
               itemCount0 = (case itemCount of None \<Rightarrow> 0 | Some n \<Rightarrow> n);
               newStats = \<lparr>totalCollected = totalCollected currentStats + itemCount0,
                           successCount = successCount currentStats
                                          + (if status = ''success'' then 1 else 0),
                           failedCount = failedCount currentStats
                                          + (if status = ''failed'' then 1 else 0),
                           lastItemCount = itemCount0\<rparr>;
               setFields = (\<lambda>c. if status = ''failed''
                             then c\<lparr>sc_lastCollectedAt := Some now,
                                   sc_lastCollectStatus := Some status,
                                   sc_lastCollectError :=
                                     Some (case error of
                                             None \<Rightarrow> ''Unknown error''
                                           | Some m \<Rightarrow> if m = [] then ''Unknown error'' else m),
                                   sc_stats := Some newStats,
                                   sc_updatedAt := now\<rparr>
                             else c\<lparr>sc_lastCollectedAt := Some now,
                                   sc_lastCollectStatus := Some status,
                                   sc_lastCollectError := None,
                                   sc_stats := Some newStats,
                                   sc_updatedAt := now\<rparr>)
           in w\<lparr>sourceConfigs := map (\<lambda>c. if sc_id c = ident then setFields c else c)
                                       (sourceConfigs w)\<rparr>))"


subsection \<open>Collecting from the sources\<close>

text \<open>The registry of collectors, and what a collection run reads from outside.\<close>

definition isCollectorSupported :: "string \<Rightarrow> bool" where
  "isCollectorSupported t = (t = ''rss'' \<or> t = ''api:rest'')"

record env =
  env_rt :: runtime
  env_net :: network
  env_parseFeedItems :: "string \<Rightarrow> FeedItem list"
  env_now :: string
  env_nowMs :: int
  env_ttl :: int
  env_random :: "nat \<Rightarrow> nat \<Rightarrow> string"
  env_infra :: infra

definition collect :: "env \<Rightarrow> SourceConfig \<Rightarrow> CollectorResult" where
  "collect ev sourceConfig =
     (if sc_collectorType sourceConfig = ''rss''
      then rssCollect (env_rt ev) (env_net ev) (env_parseFeedItems ev) (env_now ev) (env_ttl ev)
             sourceConfig
      else restCollect (env_rt ev) (env_net ev) (env_now ev) (env_random ev) sourceConfig)"

record CollectOutcome =
  co_collected :: int
  co_saved :: int
  co_skipped :: int
  co_error :: "string option"

definition collectFromSource :: "env \<Rightarrow> world \<Rightarrow> SourceConfig \<Rightarrow> world \<times> CollectOutcome" where
  "collectFromSource ev w sourceConfig =
     (if \<not> isCollectorSupported (sc_collectorType sourceConfig) then
        (w, \<lparr>co_collected = 0, co_saved = 0, co_skipped = 0,
             co_error = Some (''Unsupported collector type: '' @ sc_collectorType sourceConfig)\<rparr>)
      else
        (let result = collect ev sourceConfig in
         if \<not> cr_success result then
           (updateSourceCollectionStatus (env_now ev) w (sc_id sourceConfig) ''failed''
              (cr_error result) None,
            \<lparr>co_collected = 0, co_saved = 0, co_skipped = 0, co_error = cr_error result\<rparr>)
         else
           (case processCollectorResult (env_infra ev) sourceConfig w result of
              (w1, Inl e) \<Rightarrow>
                (updateSourceCollectionStatus (env_now ev) w1 (sc_id sourceConfig) ''failed''
                   (Some (errorMessage e)) None,
                 \<lparr>co_collected = 0, co_saved = 0, co_skipped = 0,
                  co_error = Some (errorMessage e)\<rparr>)
            | (w1, Inr (saved, skipped)) \<Rightarrow>
                (updateSourceCollectionStatus (env_now ev) w1 (sc_id sourceConfig) ''success''
                   None (Some saved),
                 \<lparr>co_collected = int (length (cr_items result)), co_saved = saved,
                  co_skipped = skipped, co_error = None\<rparr>))))"




section \<open>Entity mutation engine (packages/ai-agent/src/services)\<close>

text \<open>
  The entity table holds documents: an item maps attribute names to values, and
  \<open>updateProject\<close> sets whatever attributes its \<open>updates\<close> object lists. The document
  client drops \<open>undefined\<close> values (\<open>removeUndefinedValues\<close>), so an absent field is an
  absent attribute.
\<close>

record StoredEvent = EventFields +
  se_id :: string

record StoredRiskFlag = RiskFlagFields +
  srf_detectedAt :: string

record StoredOpportunityFlag = OpportunityFlagFields +
  sof_detectedAt :: string

datatype attr =
    AString string
  | ANumber real
  | AEvents "StoredEvent list"
  | ARiskFlags "StoredRiskFlag list"
  | AOpportunityFlags "StoredOpportunityFlag list"
  | AAttributes "(string \<times> jsval) list"

type_synonym project = "string \<rightharpoonup> attr"

type_synonym projects = "string \<rightharpoonup> project"

text \<open>
  What the engine reads from outside: the ISO text of the clock, \<open>Date.now()\<close>, and the
  nine characters \<open>Math.random().toString(36).substr(2, 9)\<close> of an event id.
\<close>

record agentEnv =
  ae_now :: string
  ae_nowMs :: nat
  ae_random36 :: string

text \<open>
  \<open>getProject\<close>. An operation whose id field the model left out asks for the key
  \<open>undefined\<close>, which the store rejects.
\<close>

definition getProject :: "projects \<Rightarrow> string option \<Rightarrow> jsError + project option" where
  "getProject table ident =
     (case ident of
        None \<Rightarrow> Inl (Error ''The provided key element does not match the schema'')
      | Some k \<Rightarrow> Inr (table k))"

text \<open>An object literal as the list of its entries; \<open>None\<close> is an \<open>undefined\<close> value.\<close>

type_synonym fields = "(string \<times> attr option) list"

definition optString :: "string option \<Rightarrow> attr option" where
  "optString s = map_option AString s"

fun putFields :: "project \<Rightarrow> fields \<Rightarrow> project" where
  "putFields item [] = item"
| "putFields item ((k, v) # rest) =
     putFields (case v of None \<Rightarrow> item | Some a \<Rightarrow> item(k \<mapsto> a)) rest"

definition createProject :: "agentEnv \<Rightarrow> projects \<Rightarrow> string \<Rightarrow> fields \<Rightarrow> projects" where
  "createProject ev table ident project =
     table(ident \<mapsto> putFields Map.empty
             (project @ [(''createdAt'', Some (AString (ae_now ev))),
                         (''lastUpdated'', Some (AString (ae_now ev)))]))"

text \<open>
  \<open>updateProject\<close>: \<open>SET lastUpdated\<close>, then every entry of \<open>updates\<close> except \<open>id\<close> and
  the undefined ones. An update of a key that is not stored creates the item.
\<close>

fun setFields :: "project \<Rightarrow> fields \<Rightarrow> project" where
  "setFields item [] = item"
| "setFields item ((k, v) # rest) =
     setFields (if k \<noteq> ''id'' \<and> v \<noteq> None then item(k \<mapsto> the v) else item) rest"

definition updateProject :: "agentEnv \<Rightarrow> projects \<Rightarrow> string \<Rightarrow> fields \<Rightarrow> projects" where
  "updateProject ev table ident updates =
     (let item = (case table ident of None \<Rightarrow> [''id'' \<mapsto> AString ident] | Some p \<Rightarrow> p)
      in table(ident \<mapsto> setFields (item(''lastUpdated'' \<mapsto> AString (ae_now ev))) updates))"

definition recentEvents :: "project \<Rightarrow> StoredEvent list" where
  "recentEvents p = (case p ''recentEvents'' of Some (AEvents es) \<Rightarrow> es | _ \<Rightarrow> [])"

definition riskFlags :: "project \<Rightarrow> StoredRiskFlag list" where
  "riskFlags p = (case p ''riskFlags'' of Some (ARiskFlags fs) \<Rightarrow> fs | _ \<Rightarrow> [])"

definition opportunityFlags :: "project \<Rightarrow> StoredOpportunityFlag list" where
  "opportunityFlags p =
     (case p ''opportunityFlags'' of Some (AOpportunityFlags fs) \<Rightarrow> fs | _ \<Rightarrow> [])"

definition addProjectEvent ::
  "agentEnv \<Rightarrow> projects \<Rightarrow> string option \<Rightarrow> EventFields \<Rightarrow> jsError + projects" where
  "addProjectEvent ev table projectId event =
     (case getProject table projectId of
        Inl e \<Rightarrow> Inl e
      | Inr None \<Rightarrow> Inr table
      | Inr (Some project) \<Rightarrow>
          (let newEvent = EventFields.extend event
                 (StoredEvent.fields (''evt-'' @ showNat (ae_nowMs ev) @ ''-'' @ ae_random36 ev));
               events = take 20 (newEvent # recentEvents project)
           in Inr (updateProject ev table (the projectId)
                     [(''recentEvents'', Some (AEvents events))])))"

definition addRiskFlag ::
  "agentEnv \<Rightarrow> projects \<Rightarrow> string option \<Rightarrow> RiskFlagFields \<Rightarrow> jsError + projects" where
  "addRiskFlag ev table projectId flag =
     (case getProject table projectId of
        Inl e \<Rightarrow> Inl e
      | Inr None \<Rightarrow> Inr table
      | Inr (Some project) \<Rightarrow>
          (let newFlag = RiskFlagFields.extend flag (StoredRiskFlag.fields (ae_now ev));
               existingFlags = riskFlags project;
               isDuplicate = list_ex (\<lambda>f. rff_type f = rff_type flag
                                          \<and> rff_description f = rff_description flag)
                               existingFlags
           in if \<not> isDuplicate
              then Inr (updateProject ev table (the projectId)
                          [(''riskFlags'', Some (ARiskFlags (newFlag # existingFlags)))])
              else Inr table))"

definition addOpportunityFlag ::
  "agentEnv \<Rightarrow> projects \<Rightarrow> string option \<Rightarrow> OpportunityFlagFields \<Rightarrow> jsError + projects" where
  "addOpportunityFlag ev table projectId flag =
     (case getProject table projectId of
        Inl e \<Rightarrow> Inl e
      | Inr None \<Rightarrow> Inr table
      | Inr (Some project) \<Rightarrow>
          (let newFlag = OpportunityFlagFields.extend flag
                 (StoredOpportunityFlag.fields (ae_now ev));
               existingFlags = opportunityFlags project;
               isDuplicate = list_ex (\<lambda>f. off_type f = off_type flag
                                          \<and> off_description f = off_description flag)
                               existingFlags
           in if \<not> isDuplicate
              then Inr (updateProject ev table (the projectId)
                          [(''opportunityFlags'', Some (AOpportunityFlags (newFlag # existingFlags)))])
              else Inr table))"

text \<open>
  \<open>executeOperation\<close>: the new table and the returned id (\<open>None\<close> is \<open>undefined\<close>), or the
  exception.
\<close>

fun executeOperation ::
  "agentEnv \<Rightarrow> projects \<Rightarrow> EntityOperation \<Rightarrow> jsError + projects \<times> string option" where
  "executeOperation ev table (OpCreate entity) =
     (case getProject table (ent_id entity) of
        Inl e \<Rightarrow> Inl e
      | Inr (Some existing) \<Rightarrow>
          Inr (updateProject ev table (the (ent_id entity))
                 [(''description'', optString (ent_description entity)),
                  (''logo'', optString (ent_logo entity)),
                  (''website'', optString (ent_website entity)),
                  (''twitter'', optString (ent_twitter entity))],
               ent_id entity)
      | Inr None \<Rightarrow>
          Inr (createProject ev table (the (ent_id entity))
                 [(''id'', optString (ent_id entity)),
                  (''name'', optString (ent_name entity)),
                  (''category'', optString (ent_category entity)),
                  (''description'', optString (ent_description entity)),
                  (''logo'', optString (ent_logo entity)),
                  (''website'', optString (ent_website entity)),
                  (''twitter'', optString (ent_twitter entity)),
                  (''status'', Some (AString ''normal'')),
                  (''healthScore'', Some (ANumber 70)),
                  (''newsSentiment'', Some (AString ''neutral'')),
                  (''recentEvents'', Some (AEvents [])),
                  (''riskFlags'', Some (ARiskFlags [])),
                  (''opportunityFlags'', Some (AOpportunityFlags [])),
                  (''lastUpdated'', Some (AString (ae_now ev))),
                  (''attributes'', Some (AAttributes (case ent_attributes entity of
                                                        None \<Rightarrow> [] | Some a \<Rightarrow> a)))],
               ent_id entity))"
| "executeOperation ev table (OpUpdate entityId updates reason) =
     (case getProject table entityId of
        Inl e \<Rightarrow> Inl e
      | Inr None \<Rightarrow> Inr (table, None)
      | Inr (Some existing) \<Rightarrow>
          Inr (updateProject ev table (the entityId)
                 [(''healthScore'', map_option ANumber (upd_healthScore updates)),
                  (''status'', optString (upd_status updates)),
                  (''newsSentiment'', optString (upd_newsSentiment updates)),
                  (''attributes'', map_option AAttributes (upd_attributes updates))],
               entityId))"
| "executeOperation ev table (OpAddEvent entityId event) =
     (case addProjectEvent ev table entityId event of
        Inl e \<Rightarrow> Inl e
      | Inr table' \<Rightarrow> Inr (table', entityId))"
| "executeOperation ev table (OpAddRiskFlag entityId flag) =
     (case addRiskFlag ev table entityId flag of
        Inl e \<Rightarrow> Inl e
      | Inr table' \<Rightarrow> Inr (table', entityId))"
| "executeOperation ev table (OpAddOpportunityFlag entityId flag) =
     (case addOpportunityFlag ev table entityId flag of
        Inl e \<Rightarrow> Inl e
      | Inr table' \<Rightarrow> Inr (table', entityId))"

text \<open>The loop \<open>for (const operation of output.operations)\<close>: the first exception ends it.\<close>

fun executeOperations :: "agentEnv \<Rightarrow> projects \<Rightarrow> EntityOperation list \<Rightarrow> jsError + projects" where
  "executeOperations ev table [] = Inr table"
| "executeOperations ev table (operation # rest) =
     (case executeOperation ev table operation of
        Inl e \<Rightarrow> Inl e
      | Inr (table', r) \<Rightarrow> executeOperations ev table' rest)"

text \<open>The stored health score of an entity, when it is a number.\<close>

definition healthScore :: "projects \<Rightarrow> string \<Rightarrow> real option" where
  "healthScore table ident =
     (case table ident of
        None \<Rightarrow> None
      | Some p \<Rightarrow> (case p ''healthScore'' of Some (ANumber h) \<Rightarrow> Some h | _ \<Rightarrow> None))"

text \<open>The invariant of the data model: every stored entity has a health score in [0,100].\<close>

definition scoresInRange :: "projects \<Rightarrow> bool" where
  "scoresInRange table =
     (\<forall>k p. table k = Some p \<longrightarrow>
        (\<exists>h. p ''healthScore'' = Some (ANumber h) \<and> 0 \<le> h \<and> h \<le> 100))"

section \<open>Tool-use resolution loop (packages/ai-agent/src/services/bedrock.ts)\<close>

text \<open>
  The input of a tool call is a \<open>Record<string, unknown>\<close> that the code reads with
  unchecked casts. It is modelled by the fields the six tool schemas declare, each at its
  declared type and each optional (the model may leave any of them out).
\<close>

record ToolInput =
  in_id :: "string option"
  in_name :: "string option"
  in_category :: "string option"
  in_description :: "string option"
  in_logo :: "string option"
  in_website :: "string option"
  in_twitter :: "string option"
  in_entityId :: "string option"
  in_healthScore :: "real option"
  in_status :: "string option"
  in_newsSentiment :: "string option"
  in_reason :: "string option"
  in_title :: "string option"
  in_date :: "string option"
  in_source :: "string option"
  in_sourceUrl :: "string option"
  in_sentiment :: "string option"
  in_eventType :: "string option"
  in_flagType :: "string option"
  in_severity :: "string option"
  in_importance :: "string option"
  in_identifiedProjects :: "IdentifiedProject list option"
  in_keyInsights :: "string list option"
  in_reasoning :: "string option"

definition toolCallToOperation :: "string \<Rightarrow> ToolInput \<Rightarrow> EntityOperation option" where
  "toolCallToOperation toolName input =
     (if toolName = ''create_project'' then
        Some (OpCreate \<lparr>ent_id = in_id input, ent_name = in_name input,
                        ent_category = in_category input,
                        ent_description = in_description input, ent_logo = in_logo input,
                        ent_website = in_website input, ent_twitter = in_twitter input,
                        ent_attributes = None\<rparr>)
      else if toolName = ''update_project'' then
        Some (OpUpdate (in_entityId input)
                \<lparr>upd_healthScore = in_healthScore input, upd_status = in_status input,
                 upd_newsSentiment = in_newsSentiment input, upd_attributes = None\<rparr>
                (in_reason input))
      else if toolName = ''add_event'' then
        Some (OpAddEvent (in_entityId input)
                \<lparr>ev_title = in_title input, ev_description = in_description input,
                 ev_date = in_date input, ev_source = in_source input,
                 ev_sourceUrl = in_sourceUrl input, ev_sentiment = in_sentiment input,
                 ev_eventType = in_eventType input\<rparr>)
      else if toolName = ''add_risk_flag'' then
        Some (OpAddRiskFlag (in_entityId input)
                \<lparr>rff_type = in_flagType input, rff_severity = in_severity input,
                 rff_description = in_description input, rff_source = in_source input\<rparr>)
      else if toolName = ''add_opportunity_flag'' then
        Some (OpAddOpportunityFlag (in_entityId input)
                \<lparr>off_type = in_flagType input, off_importance = in_importance input,
                 off_description = in_description input, off_source = in_source input\<rparr>)
      else None)"

datatype ContentBlock =
    TextBlock string
  | ToolUseBlock string string ToolInput

record BedrockResponse =
  br_content :: "ContentBlock list"
  br_stop_reason :: string

text \<open>
  The acknowledgement fed back for a tool call is a JSON text with a fixed sentence; the
  three texts are kept apart by a tag.
\<close>

datatype acknowledgement = AnalysisReceived | OperationRecorded string | UnknownTool

record ToolResult =
  tr_type :: string
  tr_tool_use_id :: string
  tr_content :: acknowledgement

datatype MessageContent =
    Prompt string
  | AssistantContent "ContentBlock list"
  | ToolResults "ToolResult list"

record Message =
  m_role :: string
  m_content :: MessageContent

text \<open>\<open>invokeModelWithTools\<close>: the model answers the conversation, or the call throws.\<close>

type_synonym model = "Message list \<Rightarrow> jsError + BedrockResponse"

record ToolUse =
  tu_id :: string
  tu_name :: string
  tu_input :: ToolInput

fun toolUseBlocksOf :: "ContentBlock list \<Rightarrow> ToolUse list" where
  "toolUseBlocksOf [] = []"
| "toolUseBlocksOf (TextBlock t # blocks) = toolUseBlocksOf blocks"
| "toolUseBlocksOf (ToolUseBlock i n inp # blocks) =
     \<lparr>tu_id = i, tu_name = n, tu_input = inp\<rparr> # toolUseBlocksOf blocks"

text \<open>The variables of \<open>analyzeWithTools\<close> that the loop changes.\<close>

record LoopState =
  ls_operations :: "EntityOperation list"
  ls_analysis :: Analysis
  ls_reasoning :: string
  ls_messages :: "Message list"

definition emptyAnalysis :: Analysis where
  "emptyAnalysis = \<lparr>an_sentiment = None, an_eventType = None,
                    an_identifiedProjects = None, an_keyInsights = None\<rparr>"

definition reportedAnalysis :: "ToolInput \<Rightarrow> Analysis" where
  "reportedAnalysis input =
     \<lparr>an_sentiment = in_sentiment input, an_eventType = in_eventType input,
      an_identifiedProjects = in_identifiedProjects input,
      an_keyInsights = in_keyInsights input\<rparr>"

definition reportedReasoning :: "ToolInput \<Rightarrow> string" where
  "reportedReasoning input = (case in_reasoning input of None \<Rightarrow> [] | Some r \<Rightarrow> r)"

text \<open>The body of \<open>for (const toolUse of toolUseBlocks)\<close>, and that loop.\<close>

definition processToolUse ::
  "LoopState \<times> ToolResult list \<Rightarrow> ToolUse \<Rightarrow> LoopState \<times> ToolResult list" where
  "processToolUse st toolUse =
     (case st of (s, toolResults) \<Rightarrow>
        if tu_name toolUse = ''report_analysis'' then
          (s\<lparr>ls_analysis := reportedAnalysis (tu_input toolUse),
             ls_reasoning := reportedReasoning (tu_input toolUse)\<rparr>,
           toolResults @ [\<lparr>tr_type = ''tool_result'', tr_tool_use_id = tu_id toolUse,
                           tr_content = AnalysisReceived\<rparr>])
        else
          (case toolCallToOperation (tu_name toolUse) (tu_input toolUse) of
             Some operation \<Rightarrow>
               (s\<lparr>ls_operations := ls_operations s @ [operation]\<rparr>,
                toolResults @ [\<lparr>tr_type = ''tool_result'', tr_tool_use_id = tu_id toolUse,
                                tr_content = OperationRecorded (tu_name toolUse)\<rparr>])
           | None \<Rightarrow>
               (s, toolResults @ [\<lparr>tr_type = ''tool_result'', tr_tool_use_id = tu_id toolUse,
                                   tr_content = UnknownTool\<rparr>])))"

definition processToolUses :: "LoopState \<Rightarrow> ToolUse list \<Rightarrow> LoopState \<times> ToolResult list" where
  "processToolUses s toolUseBlocks = foldl processToolUse (s, []) toolUseBlocks"

definition agentOutput :: "LoopState \<Rightarrow> AIAgentOutput" where
  "agentOutput s =
     \<lparr>operations = ls_operations s, analysis = ls_analysis s, reasoning = ls_reasoning s\<rparr>"

text \<open>
  The loop \<open>for (let i = 0; i < 5; i++)\<close>. Beside the result it returns the answers of the
  calls of \<open>invokeModelWithTools\<close> it made, in order: one entry per request/response
  round.
\<close>

function toolUseLoop ::
  "model \<Rightarrow> nat \<Rightarrow> LoopState \<Rightarrow> (jsError + BedrockResponse) list \<Rightarrow>
   (jsError + BedrockResponse) list \<times> (jsError + AIAgentOutput)" where
  "toolUseLoop invokeModelWithTools i s rounds =
     (if i < 5 then
        (case invokeModelWithTools (ls_messages s) of
           Inl e \<Rightarrow> (rounds @ [Inl e], Inl e)
         | Inr response \<Rightarrow>
             (let toolUseBlocks = toolUseBlocksOf (br_content response) in
              if toolUseBlocks = [] then (rounds @ [Inr response], Inr (agentOutput s))
              else
                (case processToolUses s toolUseBlocks of
                   (s1, toolResults) \<Rightarrow>
                     (let s2 = s1\<lparr>ls_messages := ls_messages s1 @
                                   [\<lparr>m_role = ''assistant'',
                                     m_content = AssistantContent (br_content response)\<rparr>,
                                    \<lparr>m_role = ''user'', m_content = ToolResults toolResults\<rparr>]\<rparr>
                      in if br_stop_reason response = ''end_turn''
                         then (rounds @ [Inr response], Inr (agentOutput s2))
                         else toolUseLoop invokeModelWithTools (i + 1) s2
                                (rounds @ [Inr response])))))
      else (rounds, Inr (agentOutput s)))"
  by pat_completeness auto
termination
  by (relation "measure (\<lambda>(invokeModelWithTools, i, s, rounds). 5 - i)") auto

declare toolUseLoop.simps [simp del]

text \<open>\<open>analyzeWithTools\<close>; \<open>userPrompt\<close> is the text built by \<open>buildUserPrompt\<close>.\<close>

definition analyzeWithTools ::
  "model \<Rightarrow> string \<Rightarrow> (jsError + BedrockResponse) list \<times> (jsError + AIAgentOutput)" where
  "analyzeWithTools invokeModelWithTools userPrompt =
     toolUseLoop invokeModelWithTools 0
       \<lparr>ls_operations = [], ls_analysis = emptyAnalysis, ls_reasoning = [],
        ls_messages = [\<lparr>m_role = ''user'', m_content = Prompt userPrompt\<rparr>]\<rparr>
       []"

subsection \<open>Notions for the statements about the loop\<close>

text \<open>The loop state after a round whose response has tool calls.\<close>

definition nextState :: "LoopState \<Rightarrow> BedrockResponse \<Rightarrow> LoopState" where
  "nextState s response =
     (fst (processToolUses s (toolUseBlocksOf (br_content response))))
       \<lparr>ls_messages :=
          ls_messages (fst (processToolUses s (toolUseBlocksOf (br_content response)))) @
          [\<lparr>m_role = ''assistant'', m_content = AssistantContent (br_content response)\<rparr>,
           \<lparr>m_role = ''user'',
            m_content = ToolResults (snd (processToolUses s
                                            (toolUseBlocksOf (br_content response))))\<rparr>]\<rparr>"

text \<open>The responses among the rounds, their tool calls, the operations these convert to
  and the \<open>report_analysis\<close> calls among them.\<close>

fun responsesOf :: "(jsError + BedrockResponse) list \<Rightarrow> BedrockResponse list" where
  "responsesOf [] = []"
| "responsesOf (Inl e # rounds) = responsesOf rounds"
| "responsesOf (Inr r # rounds) = r # responsesOf rounds"

definition toolUsesOf :: "(jsError + BedrockResponse) list \<Rightarrow> ToolUse list" where
  "toolUsesOf rounds = concat (map (\<lambda>r. toolUseBlocksOf (br_content r)) (responsesOf rounds))"

fun operationsOf :: "ToolUse list \<Rightarrow> EntityOperation list" where
  "operationsOf [] = []"
| "operationsOf (u # us) =
     (if tu_name u = ''report_analysis'' then operationsOf us
      else (case toolCallToOperation (tu_name u) (tu_input u) of
              None \<Rightarrow> operationsOf us
            | Some operation \<Rightarrow> operation # operationsOf us))"

definition reportsOf :: "ToolUse list \<Rightarrow> ToolUse list" where
  "reportsOf us = filter (\<lambda>u. tu_name u = ''report_analysis'') us"

definition hasReport :: "BedrockResponse \<Rightarrow> bool" where
  "hasReport r = (reportsOf (toolUseBlocksOf (br_content r)) \<noteq> [])"

section \<open>Sample inputs\<close>

definition lowRisk :: RiskFlag where
  "lowRisk = \<lparr>rf_type = ''layoffs'', rf_severity = ''low'', rf_description = ''d'',
       rf_detectedAt = ''t'', rf_source = None\<rparr>"

definition criticalRisk :: RiskFlag where
  "criticalRisk = \<lparr>rf_type = ''security_breach'', rf_severity = ''critical'',
       rf_description = ''hack'', rf_detectedAt = ''t'', rf_source = None\<rparr>"

text \<open>
  A sample runtime for running the model on concrete inputs. It agrees with every engine
  on the inputs it is used on: two ISO date-times, texts that are no date at all,
  canonical decimal integers, ASCII letters. The general theorems quantify over the
  runtime.
\<close>

definition asciiLower :: "char \<Rightarrow> char" where
  "asciiLower c =
     (case map_of (zip ''ABCDEFGHIJKLMNOPQRSTUVWXYZ'' ''abcdefghijklmnopqrstuvwxyz'') c of
        None \<Rightarrow> c | Some l \<Rightarrow> l)"

definition asciiUpper :: "char \<Rightarrow> char" where
  "asciiUpper c =
     (case map_of (zip ''abcdefghijklmnopqrstuvwxyz'' ''ABCDEFGHIJKLMNOPQRSTUVWXYZ'') c of
        None \<Rightarrow> c | Some u \<Rightarrow> u)"

definition sampleRuntime :: runtime where
  "sampleRuntime =
     \<lparr>rt_toISO = (\<lambda>s. if s = ''1970-01-01T00:00:00.000Z'' \<or> s = ''1970-01-01T00:06:00.000Z''
                       then Some s else None),
      rt_getTime = (\<lambda>s. if s = ''1970-01-01T00:00:00.000Z'' then Some 0
                         else if s = ''1970-01-01T00:06:00.000Z'' then Some 360000
                         else None),
      rt_number = (\<lambda>s. if arrayIndex s \<noteq> None then s else ''NaN''),
      rt_lower = map asciiLower,
      rt_upper = map asciiUpper\<rparr>"

definition quietInfra :: infra where
  "quietInfra = \<lparr>INFO_QUEUE_URL = Some ''https://sqs.example/info.fifo'',
                 getFails = (\<lambda>k. False), putFails = (\<lambda>k. False), sendFails = (\<lambda>k. False)\<rparr>"

definition sampleEnv :: "network \<Rightarrow> env" where
  "sampleEnv net =
     \<lparr>env_rt = sampleRuntime, env_net = net,
      env_parseFeedItems = (\<lambda>xml. []), env_now = ''1970-01-01T00:16:00.000Z'',
      env_nowMs = 960000, env_ttl = 2592960, env_random = (\<lambda>e k. ''0.5''),
      env_infra = quietInfra\<rparr>"




text \<open>REST collector: a project source with two endpoints.\<close>

definition llamaMapping :: FieldMapping where
  "llamaMapping = [(''id'', PathRule ''id''), (''name'', PathRule ''name''), (''tvl'', PathRule ''tvl'')]"

definition llamaConfig :: RestApiConfig where
  "llamaConfig =
     \<lparr>rc_baseUrl = ''https://api.llama.fi'',
      rc_endpoints = Some [\<lparr>ep_path = ''/protocols'', ep_method = ''GET'',
                            ep_mapping = llamaMapping, ep_limit = None\<rparr>,
                           \<lparr>ep_path = ''/chains'', ep_method = ''GET'',
                            ep_mapping = llamaMapping, ep_limit = Some 50\<rparr>],
      rc_requestDelay = None\<rparr>"

definition llamaSource :: SourceConfig where
  "llamaSource =
     \<lparr>sc_id = ''project_info:defillama'', sc_type = ''project_info'', sc_sourceId = ''defillama'',
      sc_name = ''DefiLlama'', sc_enabled = True, sc_enabledStr = ''true'',
      sc_collectorType = ''api:rest'', sc_config = RestApi llamaConfig,
      sc_intervalMinutes = 60, sc_priority = 10,
      sc_lastCollectedAt = None, sc_lastCollectStatus = None,
      sc_lastCollectError = None, sc_stats = None,
      sc_createdAt = ''1970-01-01T00:00:00.000Z'', sc_updatedAt = ''1970-01-01T00:00:00.000Z''\<rparr>"

definition llamaWorld :: world where
  "llamaWorld =
     \<lparr>sourceConfigs = [llamaSource],
      projectInfoTable = Map.empty, marketInfoTable = Map.empty, queue = []\<rparr>"

text \<open>A network on which the first endpoint is rate limited for ever and the second
  answers 500.\<close>

definition brokenNet :: network where
  "brokenNet = (\<lambda>url method i.
     if url = ''https://api.llama.fi/protocols''
     then HttpResponse 429 ''Too Many Requests'' [] None
     else HttpResponse 500 ''Internal Server Error'' [] None)"

text \<open>Persistence: two normalized project records, and an environment without a queue URL.\<close>

definition alpha :: ProjectInfo where
  "alpha =
     \<lparr>pi_id = ''defillama:a'', pi_source = ''defillama'', pi_sourceId = ''a'',
      pi_rawData = JObject [(''id'', JString ''a''), (''name'', JString ''Alpha''),
                            (''tvl'', JNumber ''100'')],
      pi_name = ''Alpha'', pi_logo = None, pi_website = None, pi_description = None,
      pi_sourceCategory = None, pi_twitter = None, pi_tokenSymbol = None,
      pi_collectedAt = ''1970-01-01T00:16:00.000Z'', pi_processedStatus = ''pending'',
      pi_dataHash = Some ''1x2y3z''\<rparr>"

definition beta :: ProjectInfo where
  "beta =
     \<lparr>pi_id = ''defillama:b'', pi_source = ''defillama'', pi_sourceId = ''b'',
      pi_rawData = JObject [(''id'', JString ''b''), (''name'', JString ''Beta''),
                            (''tvl'', JNumber ''50'')],
      pi_name = ''Beta'', pi_logo = None, pi_website = None, pi_description = None,
      pi_sourceCategory = None, pi_twitter = None, pi_tokenSymbol = None,
      pi_collectedAt = ''1970-01-01T00:16:00.000Z'', pi_processedStatus = ''pending'',
      pi_dataHash = Some ''4u5v6w''\<rparr>"

definition twoProjects :: CollectorResult where
  "twoProjects =
     \<lparr>cr_success = True, cr_items = [PI alpha, PI beta], cr_error = None,
      cr_stats = \<lparr>totalFetched = 2, savedCount = 2, skippedCount = 0\<rparr>\<rparr>"

definition noQueueInfra :: infra where
  "noQueueInfra = \<lparr>INFO_QUEUE_URL = None,
                   getFails = (\<lambda>k. False), putFails = (\<lambda>k. False), sendFails = (\<lambda>k. False)\<rparr>"

text \<open>Field mapping: an endpoint whose mapping turns the field \<open>listed\<close> into a date, and
  a record whose \<open>listed\<close> is not a date.\<close>

definition listingMapping :: FieldMapping where
  "listingMapping =
     [(''id'', PathRule ''id''),
      (''name'', MappingRule \<lparr>fmr_source = ''profile.name'', fmr_transform = Some ''uppercase'',
                              fmr_default = JString ''unnamed''\<rparr>),
      (''publishedAt'', MappingRule \<lparr>fmr_source = ''listed'', fmr_transform = Some ''date'',
                                     fmr_default = JUndefined\<rparr>)]"

definition badDateItem :: jsval where
  "badDateItem = JObject [(''id'', JString ''a''), (''listed'', JString ''soon'')]"

definition goodDateItem :: jsval where
  "goodDateItem = JObject [(''id'', JString ''b''),
                           (''profile'', JObject [(''name'', JString ''Beta'')]),
                           (''listed'', JString ''1970-01-01T00:06:00.000Z'')]"

text \<open>Record identity: a record without \<open>id\<close>, \<open>slug\<close> or \<open>symbol\<close>, one with an \<open>id\<close>, a
  feed item and its source.\<close>

definition anonymousItem :: jsval where
  "anonymousItem = JObject [(''name'', JString ''Alpha''), (''tvl'', JNumber ''100'')]"

definition alphaItem :: jsval where
  "alphaItem = JObject [(''id'', JString ''a''), (''name'', JString ''Alpha''),
                        (''tvl'', JNumber ''100'')]"

definition hackItem :: FeedItem where
  "hackItem = \<lparr>fi_title = ''Hack'', fi_link = Some ''http://x'', fi_description = ''d'',
               fi_pubDate = Some ''yesterday'', fi_author = None, fi_category = None\<rparr>"

definition coindeskConfig :: RssConfig where
  "coindeskConfig = \<lparr>rss_url = ''https://www.coindesk.com/arc/outboundfeeds/rss/'',
                     rss_maxItems = Some 20, rss_userAgent = None, rss_language = None\<rparr>"

definition coindeskSource :: SourceConfig where
  "coindeskSource =
     \<lparr>sc_id = ''market_info:rss:coindesk'', sc_type = ''market_info'',
      sc_sourceId = ''rss:coindesk'', sc_name = ''CoinDesk'', sc_enabled = True,
      sc_enabledStr = ''true'', sc_collectorType = ''rss'', sc_config = Rss coindeskConfig,
      sc_intervalMinutes = 15, sc_priority = 1,
      sc_lastCollectedAt = None, sc_lastCollectStatus = None,
      sc_lastCollectError = None, sc_stats = None,
      sc_createdAt = ''1970-01-01T00:00:00.000Z'', sc_updatedAt = ''1970-01-01T00:00:00.000Z''\<rparr>"

text \<open>Resolution loop: tool inputs, and three models. The first reports in its first
  answer and then ends its turn with text; the second reports and ends its turn in one
  answer; the third never reports and never stops calling tools.\<close>

definition emptyInput :: ToolInput where
  "emptyInput =
     \<lparr>in_id = None, in_name = None, in_category = None, in_description = None,
      in_logo = None, in_website = None, in_twitter = None, in_entityId = None,
      in_healthScore = None, in_status = None, in_newsSentiment = None, in_reason = None,
      in_title = None, in_date = None, in_source = None, in_sourceUrl = None,
      in_sentiment = None, in_eventType = None, in_flagType = None, in_severity = None,
      in_importance = None, in_identifiedProjects = None, in_keyInsights = None,
      in_reasoning = None\<rparr>"


definition hackFlag :: ToolInput where
  "hackFlag = emptyInput\<lparr>in_entityId := Some ''acme'', in_flagType := Some ''security_breach'',
                         in_severity := Some ''critical'', in_description := Some ''Hack''\<rparr>"




definition flagAnswer :: BedrockResponse where
  "flagAnswer =
     \<lparr>br_content = [ToolUseBlock ''t1'' ''add_risk_flag'' hackFlag],
      br_stop_reason = ''tool_use''\<rparr>"



definition neverReports :: model where
  "neverReports messages = Inr flagAnswer"

text \<open>Mutation engine: the clock of the agent, the entity \<open>acme\<close> and an update that
  carries a health score of 150.\<close>

definition sampleAgentEnv :: agentEnv where
  "sampleAgentEnv = \<lparr>ae_now = ''1970-01-01T00:16:00.000Z'', ae_nowMs = 960000,
                     ae_random36 = ''k3j2h1g0f''\<rparr>"

definition acmeEntity :: EntityFields where
  "acmeEntity = \<lparr>ent_id = Some ''acme'', ent_name = Some ''Acme'', ent_category = Some ''defi'',
                 ent_description = None, ent_logo = None, ent_website = None,
                 ent_twitter = None, ent_attributes = None\<rparr>"

definition overshoot :: EntityOperation where
  "overshoot = OpUpdate (Some ''acme'')
                 \<lparr>upd_healthScore = Some 150, upd_status = None, upd_newsSentiment = None,
                  upd_attributes = None\<rparr>
                 (Some ''strong quarter'')"

section \<open>Status derivation: theorems\<close>

lemma list_ex_insert_flag:
  "list_ex P (xs @ f # ys) = (P f \<or> list_ex P xs \<or> list_ex P ys)"
  by (auto simp: list_ex_iff)

lemma status_critical_inserted:
  "rf_severity c = ''critical'' \<Longrightarrow> determineProjectStatus h (rs1 @ c # rs2) os = Danger"
  by (simp add: determineProjectStatus_def Let_def list_ex_insert_flag)

lemma status_precedence_chain:
  "determineProjectStatus h rs os =
           (if \<exists>f \<in> set rs. rf_severity f = ''critical'' then Danger
            else if (\<exists>f \<in> set rs. rf_severity f = ''high'') \<or> h < 30 then Danger
            else if (\<exists>f \<in> set rs. rf_severity f = ''medium'') \<or> h < 50 then Warning
            else if (\<exists>f \<in> set os. of_importance f = ''high'') \<or> h \<ge> 80 then Watch
            else Normal)"
  unfolding determineProjectStatus_def Let_def list_ex_iff by (rule refl)

text \<open>
  Claim C3. For every health score (in particular every score in [0,100]) and all flag
  lists, \<open>determineProjectStatus\<close> returns exactly one of the four statuses, chosen by
  the ordered precedence: a critical risk gives danger; else a high risk or a score below
  30 gives danger; else a medium risk or a score below 50 gives warning; else a
  high-importance opportunity or a score of at least 80 gives watch; else normal. It is
  monotonic: with a risk flag of critical severity added anywhere in the risk list the
  result is danger.
\<close>

theorem determineProjectStatus_precedence:
  "determineProjectStatus h rs os =
           (if \<exists>f \<in> set rs. rf_severity f = ''critical'' then Danger
            else if (\<exists>f \<in> set rs. rf_severity f = ''high'') \<or> h < 30 then Danger
            else if (\<exists>f \<in> set rs. rf_severity f = ''medium'') \<or> h < 50 then Warning
            else if (\<exists>f \<in> set os. of_importance f = ''high'') \<or> h \<ge> 80 then Watch
            else Normal)
   \<and> determineProjectStatus h rs os \<in> {Normal, Watch, Warning, Danger}
   \<and> (\<forall>c rs1 rs2. rf_severity c = ''critical'' \<longrightarrow>
         determineProjectStatus h (rs1 @ c # rs2) os = Danger)"
proof -
  have "determineProjectStatus h rs os \<in> {Normal, Watch, Warning, Danger}"
    by (cases "determineProjectStatus h rs os") simp_all
  moreover have "\<forall>c rs1 rs2. rf_severity c = ''critical'' \<longrightarrow>
               determineProjectStatus h (rs1 @ c # rs2) os = Danger"
    using status_critical_inserted by blast
  moreover note status_precedence_chain [of h rs os]
  ultimately show ?thesis by blast
qed

theorem determineProjectStatus_precedence_witness:
  "determineProjectStatus 85 [lowRisk] [] = Watch
   \<and> determineProjectStatus 85 ([lowRisk] @ criticalRisk # []) [] = Danger"
proof -
  have c: "rf_severity criticalRisk = ''critical''" by (simp add: criticalRisk_def)
  note w = determineProjectStatus_precedence [of 85 "[lowRisk]" "[]"]
  from w have "determineProjectStatus 85 [lowRisk] [] = Watch"
    by (simp add: lowRisk_def)
  moreover from w c have "determineProjectStatus 85 ([lowRisk] @ criticalRisk # []) [] = Danger"
    by blast
  ultimately show ?thesis by blast
qed

section \<open>Importance score: theorems\<close>

lemma flag_operation_tag:
  "isFlagOperation x = (op_type x = ''add_risk_flag'' \<or> op_type x = ''add_opportunity_flag'')"
  by (cases x) simp_all

lemma count_flag_operations:
  "int (length (filter (\<lambda>x. op_type x = ''add_risk_flag'') ops)) +
   int (length (filter (\<lambda>x. op_type x = ''add_opportunity_flag'') ops)) =
   int (length (filter isFlagOperation ops))"
proof (induction ops)
  case Nil
  show ?case by simp
next
  case (Cons x ops)
  then show ?case by (cases x) simp_all
qed

lemma score_unfolded:
  "calculateImportanceScore output =
     min (max (50 + eventTypeBonus (an_eventType (analysis output))
                 + sentimentBonus (an_sentiment (analysis output))
                 + min ((case an_identifiedProjects (analysis output) of
                            None \<Rightarrow> 0 | Some ps \<Rightarrow> int (length ps)) * 5) 15
                 + (int (length (filter (\<lambda>x. op_type x = ''add_risk_flag'') (operations output)))
                   + int (length (filter (\<lambda>x. op_type x = ''add_opportunity_flag'') (operations output)))) * 5) 0) 100"
proof -
  let ?e = "an_eventType (analysis output)" and ?s = "an_sentiment (analysis output)"
  have e: "?e = Some ''security'' \<or> ?e = Some ''funding'' \<or> ?e = Some ''regulatory''
      \<or> ?e = Some ''legal''
      \<or> (?e \<noteq> Some ''security'' \<and> ?e \<noteq> Some ''funding'' \<and> ?e \<noteq> Some ''regulatory''
          \<and> ?e \<noteq> Some ''legal'')"
    by blast
  have s: "?s = Some ''negative'' \<or> ?s = Some ''positive''
      \<or> (?s \<noteq> Some ''negative'' \<and> ?s \<noteq> Some ''positive'')"
    by blast
  show ?thesis
    using e s
    by (elim disjE conjE)
       (simp_all only: calculateImportanceScore_def Let_def eventTypeBonus_def
          sentimentBonus_def, simp_all)
qed

text \<open>
  Claim C6. For every agent output the importance score computed by the code is the
  fixed weighted rule: base 50; plus 30 for a security event, 25 for regulatory, 20 for
  funding, 20 for legal; plus 15 for negative sentiment, 5 for positive; plus 5 per
  identified project, at most 15 in total; plus 5 per add_risk_flag or
  add_opportunity_flag operation; the sum clamped to [0,100].
\<close>

theorem calculateImportanceScore_rule:
  "calculateImportanceScore output = importanceRule output
   \<and> 0 \<le> calculateImportanceScore output \<and> calculateImportanceScore output \<le> 100"
proof -
  have "calculateImportanceScore output = importanceRule output"
    unfolding score_unfolded importanceRule_def Let_def count_flag_operations
    by (cases "an_identifiedProjects (analysis output)") (simp_all add: min_def max_def)
  moreover have "0 \<le> calculateImportanceScore output \<and> calculateImportanceScore output \<le> 100"
    unfolding score_unfolded by simp
  ultimately show ?thesis by simp
qed

section \<open>Scheduler: theorems\<close>



lemma updateSourceCollectionStatus_keeps_sync:
  assumes "\<forall>c \<in> set (sourceConfigs w).
             sc_enabledStr c = (if sc_enabled c then ''true'' else ''false'')"
  shows "\<forall>c \<in> set (sourceConfigs (updateSourceCollectionStatus now w ident status error n)).
             sc_enabledStr c = (if sc_enabled c then ''true'' else ''false'')"
  using assms
  by (cases "getSourceConfig w ident")
     (auto simp: updateSourceCollectionStatus_def Let_def)





section \<open>REST collector: theorems\<close>

lemma collectEndpoints_all_fail:
  assumes "\<forall>ep \<in> set endpoints. \<exists>e.
             fetchWithRetry (net (rc_baseUrl config @ ep_path ep) (ep_method ep)) 3 0 = Inl e"
  shows "collectEndpoints rt net now random sc config k endpoints = []"
  using assms
proof (induction endpoints arbitrary: k)
  case Nil
  show ?case by simp
next
  case (Cons ep rest)
  from Cons.prems obtain e where
    "fetchWithRetry (net (rc_baseUrl config @ ep_path ep) (ep_method ep)) 3 0 = Inl e"
    by auto
  then have "fetchEndpoint rt net now (random k) sc config ep = Inl e"
    by (simp add: fetchEndpoint_def)
  moreover have "collectEndpoints rt net now random sc config (Suc k) rest = []"
    using Cons.IH Cons.prems by simp
  ultimately show ?case by simp
qed

lemma restCollect_failure_iff:
  "(\<not> cr_success (restCollect rt net now random sc)) =
     (\<not> (\<exists>config endpoints. sc_config sc = RestApi config \<and> rc_endpoints config = Some endpoints))"
  by (cases "sc_config sc")
     (auto simp: restCollect_def successResult_def failedResult_def Let_def split: option.splits)

lemma processCollectorResult_no_items:
  "cr_items result = [] \<Longrightarrow> processCollectorResult infr sc w result = (w, Inr (0, 0))"
  by (simp add: processCollectorResult_def processBatches.simps)

lemma find_after_update:
  assumes "find (\<lambda>c. sc_id c = ident) cs = Some c" and "\<And>x. sc_id (f x) = sc_id x"
  shows "find (\<lambda>c. sc_id c = ident) (map (\<lambda>c. if sc_id c = ident then f c else c) cs) = Some (f c)"
  using assms(1)
proof (induction cs)
  case Nil
  then show ?case by simp
next
  case (Cons x xs)
  then show ?case using assms(2) by (cases "sc_id x = ident") auto
qed

lemma status_recorded_success:
  assumes "getSourceConfig w ident = Some stored"
  shows "\<exists>c. getSourceConfig (updateSourceCollectionStatus now w ident ''success'' None (Some n)) ident
               = Some c
           \<and> sc_lastCollectStatus c = Some ''success''
           \<and> sc_lastCollectError c = None
           \<and> sc_lastCollectedAt c = Some now
           \<and> sc_stats c =
               Some \<lparr>totalCollected = (case sc_stats stored of None \<Rightarrow> 0 | Some s \<Rightarrow> totalCollected s) + n,
                     successCount = (case sc_stats stored of None \<Rightarrow> 0 | Some s \<Rightarrow> successCount s) + 1,
                     failedCount = (case sc_stats stored of None \<Rightarrow> 0 | Some s \<Rightarrow> failedCount s),
                     lastItemCount = n\<rparr>"
proof -
  let ?f = "\<lambda>c. c\<lparr>sc_lastCollectedAt := Some now,
                   sc_lastCollectStatus := Some ''success'',
                   sc_lastCollectError := None,
                   sc_stats := Some \<lparr>totalCollected = (case sc_stats stored of None \<Rightarrow> 0 | Some s \<Rightarrow> totalCollected s) + n,
                     successCount = (case sc_stats stored of None \<Rightarrow> 0 | Some s \<Rightarrow> successCount s) + 1,
                     failedCount = (case sc_stats stored of None \<Rightarrow> 0 | Some s \<Rightarrow> failedCount s),
                     lastItemCount = n\<rparr>,
                   sc_updatedAt := now\<rparr>"
  from assms have f: "find (\<lambda>c. sc_id c = ident) (sourceConfigs w) = Some stored"
    by (simp add: getSourceConfig_def)
  have "find (\<lambda>c. sc_id c = ident)
          (map (\<lambda>c. if sc_id c = ident then ?f c else c) (sourceConfigs w)) = Some (?f stored)"
    by (rule find_after_update [OF f]) simp
  then have "getSourceConfig (updateSourceCollectionStatus now w ident ''success'' None (Some n)) ident
               = Some (?f stored)"
    using assms
    by (cases "sc_stats stored")
       (simp_all add: updateSourceCollectionStatus_def getSourceConfig_def Let_def cong: if_cong)
  then show ?thesis by simp
qed

text \<open>
  Claim C10. In the REST collector, when the fetch of every configured endpoint fails
  (each after its retries), \<open>collect\<close> still returns \<open>success: true\<close> with no items and
  all statistics zero; \<open>collectFromSource\<close> then records the run of a stored source as a
  success and increments its success counter, not its failure counter. The REST
  collector returns \<open>success: false\<close> only when the loop over the endpoints itself cannot
  run (an exception outside the per-endpoint \<open>try\<close>).
\<close>

theorem restCollect_all_endpoints_fail:
  assumes "sc_collectorType sc = ''api:rest''"
    and "sc_config sc = RestApi config"
    and "rc_endpoints config = Some endpoints"
    and "\<forall>ep \<in> set endpoints. \<exists>e.
           fetchWithRetry (env_net ev (rc_baseUrl config @ ep_path ep) (ep_method ep)) 3 0 = Inl e"
    and "getSourceConfig w (sc_id sc) = Some stored"
  shows "collect ev sc =
           \<lparr>cr_success = True, cr_items = [], cr_error = None,
            cr_stats = \<lparr>totalFetched = 0, savedCount = 0, skippedCount = 0\<rparr>\<rparr>
       \<and> co_error (snd (collectFromSource ev w sc)) = None
       \<and> (\<exists>c. getSourceConfig (fst (collectFromSource ev w sc)) (sc_id sc) = Some c
              \<and> sc_lastCollectStatus c = Some ''success''
              \<and> sc_lastCollectError c = None
              \<and> map_option successCount (sc_stats c)
                  = Some ((case sc_stats stored of None \<Rightarrow> 0 | Some s \<Rightarrow> successCount s) + 1)
              \<and> map_option failedCount (sc_stats c)
                  = Some (case sc_stats stored of None \<Rightarrow> 0 | Some s \<Rightarrow> failedCount s))
       \<and> (\<forall>rt net now random sc'.
             (\<not> cr_success (restCollect rt net now random sc')) =
             (\<not> (\<exists>config' endpoints'. sc_config sc' = RestApi config'
                    \<and> rc_endpoints config' = Some endpoints')))"
proof -
  have none: "collectEndpoints (env_rt ev) (env_net ev) (env_now ev) (env_random ev) sc config 0 endpoints = []"
    by (rule collectEndpoints_all_fail [OF assms(4)])
  have c: "collect ev sc =
           \<lparr>cr_success = True, cr_items = [], cr_error = None,
            cr_stats = \<lparr>totalFetched = 0, savedCount = 0, skippedCount = 0\<rparr>\<rparr>"
    using assms(1-3) none by (simp add: collect_def restCollect_def successResult_def)
  have run: "collectFromSource ev w sc =
      (updateSourceCollectionStatus (env_now ev) w (sc_id sc) ''success'' None (Some 0),
       \<lparr>co_collected = 0, co_saved = 0, co_skipped = 0, co_error = None\<rparr>)"
    using assms(1) c
    by (simp add: collectFromSource_def isCollectorSupported_def Let_def
        processCollectorResult_no_items)
  from status_recorded_success [OF assms(5), of "env_now ev" 0]
  have "\<exists>c. getSourceConfig (fst (collectFromSource ev w sc)) (sc_id sc) = Some c
              \<and> sc_lastCollectStatus c = Some ''success''
              \<and> sc_lastCollectError c = None
              \<and> map_option successCount (sc_stats c)
                  = Some ((case sc_stats stored of None \<Rightarrow> 0 | Some s \<Rightarrow> successCount s) + 1)
              \<and> map_option failedCount (sc_stats c)
                  = Some (case sc_stats stored of None \<Rightarrow> 0 | Some s \<Rightarrow> failedCount s)"
    unfolding run by auto
  moreover have "co_error (snd (collectFromSource ev w sc)) = None"
    unfolding run by simp
  ultimately show ?thesis using c restCollect_failure_iff by blast
qed


lemma always_429: "fetchWithRetry (\<lambda>i. HttpResponse 429 t b None) 3 0 = Inl (Error ''Max retries exceeded'')"
  by (simp add: fetchWithRetry.simps)

lemma always_500:
  "fetchWithRetry (\<lambda>i. HttpResponse 500 t b None) 3 0
     = Inl (Error (''HTTP '' @ showNat 500 @ '': '' @ t))"
  by (simp add: fetchWithRetry.simps responseOk_def)

theorem restCollect_all_endpoints_fail_witness:
  "collect (sampleEnv brokenNet) llamaSource =
           \<lparr>cr_success = True, cr_items = [], cr_error = None,
            cr_stats = \<lparr>totalFetched = 0, savedCount = 0, skippedCount = 0\<rparr>\<rparr>
   \<and> co_error (snd (collectFromSource (sampleEnv brokenNet) llamaWorld llamaSource)) = None
   \<and> (\<exists>c. getSourceConfig (fst (collectFromSource (sampleEnv brokenNet) llamaWorld llamaSource))
             ''project_info:defillama'' = Some c
          \<and> sc_lastCollectStatus c = Some ''success''
          \<and> map_option successCount (sc_stats c) = Some 1
          \<and> map_option failedCount (sc_stats c) = Some 0)"
proof -
  have a: "sc_collectorType llamaSource = ''api:rest''"
    and b: "sc_config llamaSource = RestApi llamaConfig"
    and i: "sc_id llamaSource = ''project_info:defillama''"
    and s: "sc_stats llamaSource = None"
    by (simp_all add: llamaSource_def)
  have c: "rc_endpoints llamaConfig =
             Some [\<lparr>ep_path = ''/protocols'', ep_method = ''GET'',
                     ep_mapping = llamaMapping, ep_limit = None\<rparr>,
                   \<lparr>ep_path = ''/chains'', ep_method = ''GET'',
                     ep_mapping = llamaMapping, ep_limit = Some 50\<rparr>]"
    by (simp add: llamaConfig_def)
  have d: "\<forall>ep \<in> set [\<lparr>ep_path = ''/protocols'', ep_method = ''GET'',
                           ep_mapping = llamaMapping, ep_limit = None\<rparr>,
                         \<lparr>ep_path = ''/chains'', ep_method = ''GET'',
                           ep_mapping = llamaMapping, ep_limit = Some 50\<rparr>]. \<exists>e.
             fetchWithRetry (env_net (sampleEnv brokenNet) (rc_baseUrl llamaConfig @ ep_path ep)
               (ep_method ep)) 3 0 = Inl e"
    by (simp add: sampleEnv_def brokenNet_def llamaConfig_def always_429 always_500)
  have e: "getSourceConfig llamaWorld (sc_id llamaSource) = Some llamaSource"
    by (simp add: getSourceConfig_def llamaWorld_def)
  from restCollect_all_endpoints_fail [OF a b c d e] show ?thesis
    unfolding i s by auto
qed

section \<open>Idempotent persistence: theorems\<close>

lemma processItem_project:
  assumes "sc_type sc = ''project_info''"
    and "\<not> putFails infr (infoId item)" and "\<not> sendFails infr (infoId item)"
  shows "processItem infr sc w item =
           (if isDuplicateProjectInfo infr w item then (w, Inr False)
            else (w\<lparr>projectInfoTable := (projectInfoTable w)(infoId item \<mapsto> item),
                    queue := queue w @ queuedFor infr item\<rparr>, Inr True))"
  using assms
  by (simp add: processItem_def saveProjectInfo_def sendToQueue_def queuedFor_def)

lemma processBatch_append:
  "processBatch infr sc w (xs @ ys) =
     (case processBatch infr sc w xs of
        (w1, r1) \<Rightarrow> (case processBatch infr sc w1 ys of (w2, r2) \<Rightarrow> (w2, r1 @ r2)))"
  by (induction xs arbitrary: w) (auto split: prod.splits)

lemma firstError_append:
  "firstError (r1 @ r2) = (case firstError r1 of Some e \<Rightarrow> Some e | None \<Rightarrow> firstError r2)"
  by (induction r1 rule: firstError.induct) auto

lemma countResults_append:
  "countResults b (r1 @ r2) = countResults b r1 + countResults b r2"
  by (simp add: countResults_def)

lemma processBatches_sequential:
  assumes "firstError (snd (processBatch infr sc w items)) = None"
  shows "processBatches infr sc w items saved skipped =
           (fst (processBatch infr sc w items),
            Inr (saved + countResults True (snd (processBatch infr sc w items)),
                 skipped + countResults False (snd (processBatch infr sc w items))))"
  using assms
proof (induction infr sc w items saved skipped rule: processBatches.induct)
  case (1 infr sc w items saved skipped)
  show ?case
  proof (cases "items = []")
    case True
    then show ?thesis by (simp add: processBatches.simps countResults_def)
  next
    case False
    obtain w1 r1 where b1: "processBatch infr sc w (take 10 items) = (w1, r1)"
      by (cases "processBatch infr sc w (take 10 items)")
    obtain w2 r2 where b2: "processBatch infr sc w1 (drop 10 items) = (w2, r2)"
      by (cases "processBatch infr sc w1 (drop 10 items)")
    have whole: "processBatch infr sc w items = (w2, r1 @ r2)"
      using processBatch_append [of infr sc w "take 10 items" "drop 10 items"] b1 b2 by simp
    from "1.prems" whole have e1: "firstError r1 = None" and e2: "firstError r2 = None"
      by (auto simp: firstError_append split: option.splits)
    have "processBatches infr sc w1 (drop 10 items)
            (saved + countResults True r1) (skipped + countResults False r1) =
          (w2, Inr (saved + countResults True r1 + countResults True r2,
                    skipped + countResults False r1 + countResults False r2))"
      using "1.IH" [OF False b1 [symmetric] e1] e2 b2 by simp
    then show ?thesis
      using False b1 e1 whole
      by (subst processBatches.simps) (simp add: countResults_append)
  qed
qed

lemma firstError_all_skipped: "firstError (map (\<lambda>x. Inr False) xs) = None"
  by (induction xs) simp_all

lemma processBatch_duplicates:
  assumes "sc_type sc = ''project_info''"
    and "\<forall>x \<in> set xs. isDuplicateProjectInfo infr w x"
  shows "processBatch infr sc w xs = (w, map (\<lambda>x. Inr False) xs)"
  using assms(2)
  by (induction xs) (simp_all add: processItem_def saveProjectInfo_def assms(1))

lemma processBatch_Cons:
  "fst (processBatch infr sc w (x # xs))
     = fst (processBatch infr sc (fst (processItem infr sc w x)) xs)"
  "snd (processBatch infr sc w (x # xs))
     = snd (processItem infr sc w x) # snd (processBatch infr sc (fst (processItem infr sc w x)) xs)"
  by (simp_all split: prod.splits)

lemma processBatch_frame:
  assumes "sc_type sc = ''project_info''" and "k \<notin> infoId ` set xs"
  shows "projectInfoTable (fst (processBatch infr sc w xs)) k = projectInfoTable w k"
  using assms(2)
proof (induction xs arbitrary: w)
  case Nil
  show ?case by simp
next
  case (Cons x xs)
  obtain w1 r where p: "processItem infr sc w x = (w1, r)"
    by (cases "processItem infr sc w x")
  then have "projectInfoTable w1 k = projectInfoTable w k"
    using Cons.prems assms(1)
    by (auto simp: processItem_def saveProjectInfo_def sendToQueue_def
        split: if_splits prod.splits sum.splits)
  moreover have "projectInfoTable (fst (processBatch infr sc w1 xs)) k = projectInfoTable w1 k"
    using Cons.IH Cons.prems by simp
  ultimately show ?case using p by (simp only: processBatch_Cons fst_conv)
qed

lemma processBatch_stores:
  assumes "sc_type sc = ''project_info''"
    and "\<forall>k. \<not> getFails infr k" and "\<forall>k. \<not> putFails infr k" and "\<forall>k. \<not> sendFails infr k"
    and "distinct (map infoId xs)"
  shows "firstError (snd (processBatch infr sc w xs)) = None
       \<and> (\<forall>x \<in> set xs. isDuplicateProjectInfo infr (fst (processBatch infr sc w xs)) x)"
  using assms(5)
proof (induction xs arbitrary: w)
  case Nil
  show ?case by simp
next
  case (Cons x xs)
  let ?w1 = "fst (processItem infr sc w x)"
  have item: "processItem infr sc w x =
           (if isDuplicateProjectInfo infr w x then (w, Inr False)
            else (w\<lparr>projectInfoTable := (projectInfoTable w)(infoId x \<mapsto> x),
                    queue := queue w @ queuedFor infr x\<rparr>, Inr True))"
    using assms(1,3,4) by (simp add: processItem_project)
  then have ok: "\<exists>b. snd (processItem infr sc w x) = Inr b"
    and here: "isDuplicateProjectInfo infr ?w1 x"
    using assms(2) by (auto simp: isDuplicateProjectInfo_def)
  from Cons.prems have d: "distinct (map infoId xs)" and n: "infoId x \<notin> infoId ` set xs"
    by auto
  note ih = Cons.IH [OF d, of ?w1]
  have "projectInfoTable (fst (processBatch infr sc ?w1 xs)) (infoId x)
          = projectInfoTable ?w1 (infoId x)"
    by (rule processBatch_frame [OF assms(1) n])
  with here have "isDuplicateProjectInfo infr (fst (processBatch infr sc ?w1 xs)) x"
    using assms(2) by (simp add: isDuplicateProjectInfo_def)
  with ih ok show ?case
    by (auto simp only: processBatch_Cons firstError.simps set_simps)
qed


text \<open>
  Claim C4 (amended). For a ProjectInfo item handled while the store and the queue
  answer: if a stored record with the same id has the same \<open>dataHash\<close>, the item is
  skipped and store and queue are unchanged; if no record exists or the stored \<open>dataHash\<close>
  differs, the item is written and, when \<open>INFO_QUEUE_URL\<close> is set, exactly one message
  \<open>{type, infoId}\<close> is enqueued (without a queue URL the item is written and counted as
  saved, and no message is sent). Running the same payload (records with different ids)
  a second time leaves store and queue unchanged and skips every item.
\<close>

theorem processItem_idempotent:
  assumes "sc_type sc = ''project_info''"
    and "\<forall>k. \<not> getFails infr k" and "\<forall>k. \<not> putFails infr k" and "\<forall>k. \<not> sendFails infr k"
    and "distinct (map infoId (cr_items result))"
  shows "(\<forall>w p. (\<exists>y. projectInfoTable w (pi_id p) = Some y \<and> infoDataHash y = pi_dataHash p) \<longrightarrow>
            processItem infr sc w (PI p) = (w, Inr False))
       \<and> (\<forall>w p. \<not> (\<exists>y. projectInfoTable w (pi_id p) = Some y \<and> infoDataHash y = pi_dataHash p) \<longrightarrow>
            processItem infr sc w (PI p) =
              (w\<lparr>projectInfoTable := (projectInfoTable w)(pi_id p \<mapsto> PI p),
                 queue := queue w @
                   (if INFO_QUEUE_URL infr = None \<or> INFO_QUEUE_URL infr = Some [] then []
                    else [\<lparr>msg_type = ''project_info'', msg_infoId = pi_id p\<rparr>])\<rparr>,
               Inr True))
       \<and> (\<exists>saved skipped. snd (processCollectorResult infr sc w result) = Inr (saved, skipped))
       \<and> (\<forall>x \<in> set (cr_items result). \<exists>y.
             projectInfoTable (fst (processCollectorResult infr sc w result)) (infoId x) = Some y
             \<and> infoDataHash y = infoDataHash x)
       \<and> processCollectorResult infr sc (fst (processCollectorResult infr sc w result)) result
           = (fst (processCollectorResult infr sc w result),
              Inr (0, int (length (cr_items result))))"
proof -
  let ?items = "cr_items result"
  let ?w1 = "fst (processBatch infr sc w ?items)"
  have dup: "isDuplicateProjectInfo infr w' (PI p) =
               (\<exists>y. projectInfoTable w' (pi_id p) = Some y \<and> infoDataHash y = pi_dataHash p)"
    for w' p
    using assms(2) by (auto simp: isDuplicateProjectInfo_def split: option.splits)
  have one: "processItem infr sc w' (PI p) =
           (if isDuplicateProjectInfo infr w' (PI p) then (w', Inr False)
            else (w'\<lparr>projectInfoTable := (projectInfoTable w')(pi_id p \<mapsto> PI p),
                    queue := queue w' @ queuedFor infr (PI p)\<rparr>, Inr True))" for w' p
    using processItem_project [OF assms(1), of infr "PI p" w'] assms(3,4) by simp
  have skipd: "\<forall>w p. (\<exists>y. projectInfoTable w (pi_id p) = Some y \<and> infoDataHash y = pi_dataHash p) \<longrightarrow>
            processItem infr sc w (PI p) = (w, Inr False)"
    using one dup by simp
  have written: "\<forall>w p. \<not> (\<exists>y. projectInfoTable w (pi_id p) = Some y \<and> infoDataHash y = pi_dataHash p) \<longrightarrow>
            processItem infr sc w (PI p) =
              (w\<lparr>projectInfoTable := (projectInfoTable w)(pi_id p \<mapsto> PI p),
                 queue := queue w @
                   (if INFO_QUEUE_URL infr = None \<or> INFO_QUEUE_URL infr = Some [] then []
                    else [\<lparr>msg_type = ''project_info'', msg_infoId = pi_id p\<rparr>])\<rparr>,
               Inr True)"
    using one dup by (simp add: queuedFor_def)
  note stores = processBatch_stores [OF assms(1-5), of w]
  have first: "processCollectorResult infr sc w result =
      (?w1, Inr (0 + countResults True (snd (processBatch infr sc w ?items)),
                 0 + countResults False (snd (processBatch infr sc w ?items))))"
    unfolding processCollectorResult_def
    using stores by (intro processBatches_sequential) simp
  have again: "processBatch infr sc ?w1 ?items = (?w1, map (\<lambda>x. Inr False) ?items)"
    using stores by (intro processBatch_duplicates [OF assms(1)]) simp
  have "processCollectorResult infr sc ?w1 result = (?w1, Inr (0, int (length ?items)))"
    unfolding processCollectorResult_def
    by (subst processBatches_sequential)
       (simp_all add: again countResults_def firstError_all_skipped)
  moreover have "\<forall>x \<in> set ?items. \<exists>y. projectInfoTable ?w1 (infoId x) = Some y
             \<and> infoDataHash y = infoDataHash x"
    using stores assms(2) by (auto simp: isDuplicateProjectInfo_def split: option.splits)
  ultimately show ?thesis
    using skipd written first by simp
qed

theorem processItem_idempotent_witness:
  "processItem quietInfra llamaSource llamaWorld (PI alpha) =
     (llamaWorld\<lparr>projectInfoTable := (projectInfoTable llamaWorld)(''defillama:a'' \<mapsto> PI alpha),
                 queue := [\<lparr>msg_type = ''project_info'', msg_infoId = ''defillama:a''\<rparr>]\<rparr>,
      Inr True)
   \<and> processCollectorResult quietInfra llamaSource
        (fst (processCollectorResult quietInfra llamaSource llamaWorld twoProjects)) twoProjects
       = (fst (processCollectorResult quietInfra llamaSource llamaWorld twoProjects), Inr (0, 2))"
proof -
  have a: "sc_type llamaSource = ''project_info''" by (simp add: llamaSource_def)
  have b: "\<forall>k. \<not> getFails quietInfra k" and c: "\<forall>k. \<not> putFails quietInfra k"
    and d: "\<forall>k. \<not> sendFails quietInfra k"
    by (simp_all add: quietInfra_def)
  have e: "distinct (map infoId (cr_items twoProjects))"
    by (simp add: twoProjects_def alpha_def beta_def)
  note t = processItem_idempotent [OF a b c d e, of llamaWorld]
  have absent: "\<not> (\<exists>y. projectInfoTable llamaWorld (pi_id alpha) = Some y
                        \<and> infoDataHash y = pi_dataHash alpha)"
    by (simp add: llamaWorld_def)
  from t absent have
    "processItem quietInfra llamaSource llamaWorld (PI alpha) =
       (llamaWorld\<lparr>projectInfoTable := (projectInfoTable llamaWorld)(pi_id alpha \<mapsto> PI alpha),
                 queue := queue llamaWorld @
                   (if INFO_QUEUE_URL quietInfra = None \<or> INFO_QUEUE_URL quietInfra = Some [] then []
                    else [\<lparr>msg_type = ''project_info'', msg_infoId = pi_id alpha\<rparr>])\<rparr>,
        Inr True)"
    by blast
  then have first: "processItem quietInfra llamaSource llamaWorld (PI alpha) =
     (llamaWorld\<lparr>projectInfoTable := (projectInfoTable llamaWorld)(''defillama:a'' \<mapsto> PI alpha),
                 queue := [\<lparr>msg_type = ''project_info'', msg_infoId = ''defillama:a''\<rparr>]\<rparr>,
      Inr True)"
    by (simp add: quietInfra_def alpha_def llamaWorld_def)
  from t have "processCollectorResult quietInfra llamaSource
        (fst (processCollectorResult quietInfra llamaSource llamaWorld twoProjects)) twoProjects
       = (fst (processCollectorResult quietInfra llamaSource llamaWorld twoProjects),
          Inr (0, int (length (cr_items twoProjects))))"
    by blast
  with first show ?thesis by (simp add: twoProjects_def)
qed

text \<open>
  The claim as stated fails without a queue URL: no record is stored under the id, the
  item is written and reported as saved, and the queue stays empty.
\<close>

theorem processItem_no_queue_counterexample:
  "projectInfoTable llamaWorld ''defillama:a'' = None
   \<and> snd (processItem noQueueInfra llamaSource llamaWorld (PI alpha)) = Inr True
   \<and> projectInfoTable (fst (processItem noQueueInfra llamaSource llamaWorld (PI alpha)))
       ''defillama:a'' = Some (PI alpha)
   \<and> queue (fst (processItem noQueueInfra llamaSource llamaWorld (PI alpha))) = []"
  by (simp add: processItem_def saveProjectInfo_def isDuplicateProjectInfo_def sendToQueue_def
      noQueueInfra_def llamaSource_def llamaWorld_def alpha_def)

section \<open>Field mapping: theorems\<close>

lemma transformValue_raises:
  "transformValue rt v t = Inl e \<Longrightarrow>
     t = ''date'' \<and> rt_toISO rt (jsString v) = None \<and> e = RangeError ''Invalid time value''"
  by (auto simp: transformValue_def split: if_splits option.splits)

lemma applyRule_raises:
  assumes "applyRule rt data rule = Inl e"
  shows "e = RangeError ''Invalid time value''
       \<and> (\<exists>r. rule = MappingRule r \<and> fmr_transform r = Some ''date'')"
proof (cases rule)
  case (PathRule path)
  with assms show ?thesis by (simp add: applyRule_def)
next
  case (MappingRule r)
  with assms show ?thesis
    by (cases "fmr_transform r")
       (auto simp: applyRule_def Let_def split: if_splits dest: transformValue_raises)
qed

lemma applyMapping_without_date:
  assumes "\<forall>(target, rule) \<in> set mapping. \<forall>r. rule = MappingRule r \<longrightarrow> fmr_transform r \<noteq> Some ''date''"
  shows "\<exists>result. applyMapping rt data mapping = Inr result"
  using assms
proof (induction mapping)
  case Nil
  show ?case by simp
next
  case (Cons entry mapping)
  obtain target rule where entry: "entry = (target, rule)" by (cases entry)
  have "\<exists>v. applyRule rt data rule = Inr v"
  proof (cases "applyRule rt data rule")
    case (Inl e)
    from applyRule_raises [OF Inl] Cons.prems entry show ?thesis by auto
  next
    case (Inr v)
    then show ?thesis by blast
  qed
  moreover from Cons have "\<exists>result. applyMapping rt data mapping = Inr result" by simp
  ultimately show ?case using entry by auto
qed

text \<open>
  Claim C7 fails on the code: a value that is present but is no date makes the \<open>date\<close>
  transform, and with it \<open>applyMapping\<close>, throw a RangeError.
\<close>

theorem applyMapping_invalid_date_raises:
  "getNestedValue badDateItem ''profile.name'' = JUndefined
   \<and> getNestedValue badDateItem ''listed'' = JString ''soon''
   \<and> applyMapping sampleRuntime badDateItem listingMapping = Inl (RangeError ''Invalid time value'')
   \<and> applyMapping sampleRuntime goodDateItem listingMapping =
       Inr [(''id'', JString ''b''), (''name'', JString ''BETA''),
            (''publishedAt'', JString ''1970-01-01T00:06:00.000Z'')]"
  by (simp add: badDateItem_def goodDateItem_def listingMapping_def applyRule_def
      getNestedValue_def transformValue_def sampleRuntime_def asciiUpper_def Let_def)

section \<open>Record identity: theorems\<close>

lemma jsOr_chain_truthy:
  "truthy a \<or> truthy b \<or> truthy c \<Longrightarrow> jsOr (jsOr (jsOr a b) c) r = jsOr (jsOr a b) c"
  by (auto simp: jsOr_def)

lemma toInfo_project_id:
  assumes "applyMapping rt item mapping = Inr md"
    and "sc_type sc = ''project_info''"
    and "truthy (fieldOf md ''id'') \<or> truthy (fieldOf md ''slug'') \<or> truthy (fieldOf md ''symbol'')"
  shows "map_sum id infoId (toInfo rt now random sc mapping item) =
           Inr (generateProjectInfoId (sc_sourceId sc)
                  (jsString (jsOr (jsOr (fieldOf md ''id'') (fieldOf md ''slug''))
                                  (fieldOf md ''symbol''))))"
  using assms(1,2) jsOr_chain_truthy [OF assms(3)]
  by (simp add: toInfo_def Let_def)

lemma toInfo_market_id:
  assumes "applyMapping rt item mapping = Inr md" and "sc_type sc \<noteq> ''project_info''"
  shows "map_sum id infoId (toInfo rt now random sc mapping item) =
           Inr (sc_sourceId sc @ ''-'' @ generateContentHash (stringifyValue item))"
  using assms by (simp add: toInfo_def Let_def)

text \<open>
  Claim C9 (amended). The id of a normalized record does not depend on the clock or on
  \<open>Math.random()\<close> in these cases: a ProjectInfo of the REST collector whose mapped
  \<open>id\<close>, \<open>slug\<close> or \<open>symbol\<close> is truthy has the id \<open>source:sourceId\<close> with \<open>sourceId\<close> the
  text of the first truthy one; a MarketInfo of the RSS collector has the id formed from
  the source id (without \<open>rss:\<close>) and the content hash of title + link; a MarketInfo of
  the REST collector has the id formed from the source id and the content hash of the
  JSON text of the raw record. Two normalizations of the same record then give the same
  id.
\<close>

theorem record_identity_deterministic:
  "(\<forall>md. applyMapping rt item mapping = Inr md \<and> sc_type sc = ''project_info''
        \<and> (truthy (fieldOf md ''id'') \<or> truthy (fieldOf md ''slug'') \<or> truthy (fieldOf md ''symbol''))
      \<longrightarrow> map_sum id infoId (toInfo rt now random sc mapping item) =
             Inr (generateProjectInfoId (sc_sourceId sc)
                    (jsString (jsOr (jsOr (fieldOf md ''id'') (fieldOf md ''slug''))
                                    (fieldOf md ''symbol''))))
        \<and> map_sum id infoId (toInfo rt now random sc mapping item) =
            map_sum id infoId (toInfo rt now' random' sc mapping item))
   \<and> (\<forall>md. applyMapping rt item mapping = Inr md \<and> sc_type sc \<noteq> ''project_info''
      \<longrightarrow> map_sum id infoId (toInfo rt now random sc mapping item) =
             Inr (sc_sourceId sc @ ''-'' @ generateContentHash (stringifyValue item))
        \<and> map_sum id infoId (toInfo rt now random sc mapping item) =
            map_sum id infoId (toInfo rt now' random' sc mapping item))
   \<and> mi_id (toMarketInfo rt now ttl sc config feedItem) =
       replaceFirst ''rss:'' [] (sc_sourceId sc) @ ''-'' @
       generateContentHash (fi_title feedItem @
         (case fi_link feedItem of None \<Rightarrow> ''undefined'' | Some l \<Rightarrow> l))
   \<and> mi_id (toMarketInfo rt now ttl sc config feedItem) =
       mi_id (toMarketInfo rt now' ttl' sc config feedItem)"
proof -
  have rss: "mi_id (toMarketInfo rt n t sc config feedItem) =
       replaceFirst ''rss:'' [] (sc_sourceId sc) @ ''-'' @
       generateContentHash (fi_title feedItem @
         (case fi_link feedItem of None \<Rightarrow> ''undefined'' | Some l \<Rightarrow> l))" for n t
    by (simp add: toMarketInfo_def Let_def)
  have "mi_id (toMarketInfo rt now ttl sc config feedItem) =
       mi_id (toMarketInfo rt now' ttl' sc config feedItem)"
    by (simp only: rss)
  with rss [of now ttl] show ?thesis
    using toInfo_project_id [of rt item mapping _ sc]
      toInfo_market_id [of rt item mapping _ sc]
    by simp
qed

theorem record_identity_deterministic_witness:
  "applyMapping sampleRuntime alphaItem llamaMapping =
     Inr [(''id'', JString ''a''), (''name'', JString ''Alpha''), (''tvl'', JNumber ''100'')]
   \<and> map_sum id infoId (toInfo sampleRuntime ''1970-01-01T00:16:00.000Z'' ''0.25''
                          llamaSource llamaMapping alphaItem) = Inr ''defillama:a''
   \<and> map_sum id infoId (toInfo sampleRuntime ''1970-01-01T00:16:00.000Z'' ''0.25''
                          coindeskSource llamaMapping alphaItem)
       = Inr (''rss:coindesk-'' @ generateContentHash (stringifyValue alphaItem))
   \<and> mi_id (toMarketInfo sampleRuntime ''1970-01-01T00:16:00.000Z'' 2592960 coindeskSource
              coindeskConfig hackItem) = ''coindesk-'' @ generateContentHash ''Hackhttp://x''"
proof -
  have m: "applyMapping sampleRuntime alphaItem llamaMapping =
     Inr [(''id'', JString ''a''), (''name'', JString ''Alpha''), (''tvl'', JNumber ''100'')]"
    by (simp add: alphaItem_def llamaMapping_def applyRule_def getNestedValue_def)
  have p: "sc_type llamaSource = ''project_info''" "sc_sourceId llamaSource = ''defillama''"
    by (simp_all add: llamaSource_def)
  have q: "sc_type coindeskSource \<noteq> ''project_info''" "sc_sourceId coindeskSource = ''rss:coindesk''"
    by (simp_all add: coindeskSource_def)
  note a = record_identity_deterministic [of sampleRuntime alphaItem llamaMapping llamaSource
      "''1970-01-01T00:16:00.000Z''" "''0.25''" "''1970-01-01T00:16:00.000Z''" "''0.25''"
      2592960 coindeskConfig hackItem 2592960]
  note b = record_identity_deterministic [of sampleRuntime alphaItem llamaMapping coindeskSource
      "''1970-01-01T00:16:00.000Z''" "''0.25''" "''1970-01-01T00:16:00.000Z''" "''0.25''"
      2592960 coindeskConfig hackItem 2592960]
  from a m p have "map_sum id infoId (toInfo sampleRuntime ''1970-01-01T00:16:00.000Z'' ''0.25''
                          llamaSource llamaMapping alphaItem) = Inr ''defillama:a''"
    by (simp add: fieldOf_def jsOr_def generateProjectInfoId_def)
  moreover from b m q
  have "map_sum id infoId (toInfo sampleRuntime ''1970-01-01T00:16:00.000Z'' ''0.25''
                          coindeskSource llamaMapping alphaItem)
       = Inr (''rss:coindesk-'' @ generateContentHash (stringifyValue alphaItem))"
    by simp
  moreover from b q
  have "mi_id (toMarketInfo sampleRuntime ''1970-01-01T00:16:00.000Z'' 2592960 coindeskSource
              coindeskConfig hackItem) = ''coindesk-'' @ generateContentHash ''Hackhttp://x''"
    by (simp add: hackItem_def)
  ultimately show ?thesis using m by simp
qed

text \<open>
  The claim as stated fails for a record without \<open>id\<close>, \<open>slug\<close> and \<open>symbol\<close>: its
  ProjectInfo id is the text of \<open>Math.random()\<close>, so two normalizations of the same record
  differ.
\<close>

theorem record_identity_random_counterexample:
  "map_sum id infoId (toInfo sampleRuntime ''1970-01-01T00:16:00.000Z'' ''0.25''
                        llamaSource llamaMapping anonymousItem) = Inr ''defillama:0.25''
   \<and> map_sum id infoId (toInfo sampleRuntime ''1970-01-01T00:16:00.000Z'' ''0.75''
                        llamaSource llamaMapping anonymousItem) = Inr ''defillama:0.75''"
  by (simp add: toInfo_def anonymousItem_def llamaMapping_def llamaSource_def applyRule_def
      getNestedValue_def fieldOf_def jsOr_def generateProjectInfoId_def Let_def)

section \<open>Resolution loop: theorems\<close>

lemma processToolUse_fold:
  "ls_operations (fst (foldl processToolUse st us)) = ls_operations (fst st) @ operationsOf us
   \<and> ls_messages (fst (foldl processToolUse st us)) = ls_messages (fst st)
   \<and> ls_analysis (fst (foldl processToolUse st us)) =
       (if reportsOf us = [] then ls_analysis (fst st)
        else reportedAnalysis (tu_input (last (reportsOf us))))
   \<and> ls_reasoning (fst (foldl processToolUse st us)) =
       (if reportsOf us = [] then ls_reasoning (fst st)
        else reportedReasoning (tu_input (last (reportsOf us))))"
proof (induction us arbitrary: st)
  case Nil
  show ?case by (simp add: reportsOf_def)
next
  case (Cons u us)
  obtain s rs where st: "st = (s, rs)" by (cases st)
  show ?case
    using Cons.IH [of "processToolUse st u"]
    by (cases "toolCallToOperation (tu_name u) (tu_input u)")
       (simp_all add: st processToolUse_def reportsOf_def)
qed

lemma nextState_fields:
  "ls_operations (nextState s r) = ls_operations s @ operationsOf (toolUseBlocksOf (br_content r))"
  "ls_analysis (nextState s r) =
     (if hasReport r
      then reportedAnalysis (tu_input (last (reportsOf (toolUseBlocksOf (br_content r)))))
      else ls_analysis s)"
  "ls_reasoning (nextState s r) =
     (if hasReport r
      then reportedReasoning (tu_input (last (reportsOf (toolUseBlocksOf (br_content r)))))
      else ls_reasoning s)"
  using processToolUse_fold [of "(s, [])" "toolUseBlocksOf (br_content r)"]
  by (simp_all add: nextState_def processToolUses_def hasReport_def)

lemma toolUseLoop_rounds:
  "toolUseLoop m i s rounds =
     (rounds @ fst (toolUseLoop m i s []), snd (toolUseLoop m i s []))"
proof (induction "5 - i" arbitrary: i s rounds)
  case 0
  then show ?case by (simp add: toolUseLoop.simps)
next
  case (Suc n)
  then have i: "i < 5" and n: "n = 5 - Suc i" by simp_all
  note later = Suc.hyps(1) [OF n]
  show ?case
  proof (cases "m (ls_messages s)")
    case (Inl e)
    with i show ?thesis by (simp add: toolUseLoop.simps)
  next
    case (Inr r)
    obtain s1 trs where p: "processToolUses s (toolUseBlocksOf (br_content r)) = (s1, trs)"
      by (cases "processToolUses s (toolUseBlocksOf (br_content r))")
    show ?thesis
      using i Inr p
      by (subst (1 2 3) toolUseLoop.simps)
         (simp add: Let_def later [of _ "rounds @ [Inr r]"] later [of _ "[Inr r]"])
  qed
qed

lemma toolUseLoop_step:
  "toolUseLoop m i s [] =
     (if i < 5 then
        (case m (ls_messages s) of
           Inl e \<Rightarrow> ([Inl e], Inl e)
         | Inr r \<Rightarrow>
             if toolUseBlocksOf (br_content r) = [] then ([Inr r], Inr (agentOutput s))
             else if br_stop_reason r = ''end_turn''
             then ([Inr r], Inr (agentOutput (nextState s r)))
             else (Inr r # fst (toolUseLoop m (i + 1) (nextState s r) []),
                   snd (toolUseLoop m (i + 1) (nextState s r) [])))
      else ([], Inr (agentOutput s)))"
proof (cases "i < 5")
  case False
  then show ?thesis by (simp add: toolUseLoop.simps)
next
  case True
  show ?thesis
  proof (cases "m (ls_messages s)")
    case (Inl e)
    with True show ?thesis by (simp add: toolUseLoop.simps)
  next
    case (Inr r)
    obtain s1 trs where p: "processToolUses s (toolUseBlocksOf (br_content r)) = (s1, trs)"
      by (cases "processToolUses s (toolUseBlocksOf (br_content r))")
    show ?thesis
      using True Inr p
      by (subst toolUseLoop.simps)
         (simp add: Let_def nextState_def toolUseLoop_rounds [of m "Suc i" _ "[Inr r]"])
  qed
qed

lemma operationsOf_append: "operationsOf (us @ vs) = operationsOf us @ operationsOf vs"
  by (induction us) (simp_all split: option.splits)

lemma toolUsesOf_Cons:
  "toolUsesOf (Inr r # rounds) = toolUseBlocksOf (br_content r) @ toolUsesOf rounds"
  "toolUsesOf (Inl e # rounds) = toolUsesOf rounds"
  "toolUsesOf [] = []"
  by (simp_all add: toolUsesOf_def)

lemma reportsOf_append: "reportsOf (us @ vs) = reportsOf us @ reportsOf vs"
  by (simp add: reportsOf_def)

lemma toolUseLoop_length: "length (fst (toolUseLoop m i s [])) \<le> 5 - i"
proof (induction "5 - i" arbitrary: i s)
  case 0
  then show ?case by (subst toolUseLoop_step) simp
next
  case (Suc n)
  then have i: "i < 5" and n: "n = 5 - Suc i" by simp_all
  have "length (fst (toolUseLoop m (Suc i) s' [])) < 5 - i" for s'
    using Suc.hyps(1) [OF n, of s'] i by simp
  then show ?case
    using i by (subst toolUseLoop_step) (simp split: sum.splits add: Suc_le_eq)
qed

lemma toolUseLoop_nonempty: "i < 5 \<Longrightarrow> fst (toolUseLoop m i s []) \<noteq> []"
  by (subst toolUseLoop_step) (simp split: sum.splits)

lemma toolUseLoop_answers:
  assumes "\<forall>ms. \<exists>r. m ms = Inr r"
  shows "\<exists>out. snd (toolUseLoop m i s []) = Inr out"
proof (induction "5 - i" arbitrary: i s)
  case 0
  then show ?case by (subst toolUseLoop_step) simp
next
  case (Suc n)
  then have i: "i < 5" and n: "n = 5 - Suc i" by simp_all
  from assms obtain r where r: "m (ls_messages s) = Inr r" by blast
  from Suc.hyps(1) [OF n] have "\<exists>out. snd (toolUseLoop m (Suc i) s' []) = Inr out" for s' .
  with i r show ?case
    by (subst toolUseLoop_step) simp
qed

lemma toolUseLoop_output:
  assumes "snd (toolUseLoop m i s []) = Inr out"
  shows "operations out = ls_operations s @ operationsOf (toolUsesOf (fst (toolUseLoop m i s [])))
       \<and> analysis out =
           (if reportsOf (toolUsesOf (fst (toolUseLoop m i s []))) = [] then ls_analysis s
            else reportedAnalysis
                   (tu_input (last (reportsOf (toolUsesOf (fst (toolUseLoop m i s [])))))))
       \<and> reasoning out =
           (if reportsOf (toolUsesOf (fst (toolUseLoop m i s []))) = [] then ls_reasoning s
            else reportedReasoning
                   (tu_input (last (reportsOf (toolUsesOf (fst (toolUseLoop m i s [])))))))"
  using assms
proof (induction "5 - i" arbitrary: i s)
  case 0
  then have "toolUseLoop m i s [] = ([], Inr (agentOutput s))"
    by (subst toolUseLoop_step) simp
  with "0.prems" show ?case
    by (auto simp: agentOutput_def toolUsesOf_def reportsOf_def)
next
  case (Suc n)
  then have i: "i < 5" and n: "n = 5 - Suc i" by simp_all
  show ?case
  proof (cases "m (ls_messages s)")
    case (Inl e)
    with i have "toolUseLoop m i s [] = ([Inl e], Inl e)"
      by (subst toolUseLoop_step) simp
    with Suc.prems show ?thesis by simp
  next
    case (Inr r)
    let ?us = "toolUseBlocksOf (br_content r)"
    consider (none) "?us = []"
      | (stop) "?us \<noteq> []" "br_stop_reason r = ''end_turn''"
      | (more) "?us \<noteq> []" "br_stop_reason r \<noteq> ''end_turn''"
      by blast
    then show ?thesis
    proof cases
      case none
      with i Inr have "toolUseLoop m i s [] = ([Inr r], Inr (agentOutput s))"
        by (subst toolUseLoop_step) simp
      with Suc.prems none show ?thesis
        by (auto simp: agentOutput_def toolUsesOf_Cons reportsOf_def)
    next
      case stop
      with i Inr have "toolUseLoop m i s [] = ([Inr r], Inr (agentOutput (nextState s r)))"
        by (subst toolUseLoop_step) simp
      with Suc.prems show ?thesis
        by (auto simp: agentOutput_def toolUsesOf_Cons nextState_fields hasReport_def)
    next
      case more
      let ?next = "toolUseLoop m (Suc i) (nextState s r) []"
      from more i Inr have step: "toolUseLoop m i s [] = (Inr r # fst ?next, snd ?next)"
        by (subst toolUseLoop_step) simp
      with Suc.prems have out: "snd ?next = Inr out" by simp
      note ih = Suc.hyps(1) [OF n out]
      show ?thesis
        unfolding step fst_conv toolUsesOf_Cons reportsOf_append operationsOf_append
        using ih
        by (simp add: nextState_fields hasReport_def)
    qed
  qed
qed

lemma toolUseLoop_last_round:
  assumes "k < length (fst (toolUseLoop m i s []))"
  shows "(case fst (toolUseLoop m i s []) ! k of
            Inl e \<Rightarrow> Suc k = length (fst (toolUseLoop m i s []))
          | Inr r \<Rightarrow>
              (Suc k = length (fst (toolUseLoop m i s []))) =
              (toolUseBlocksOf (br_content r) = [] \<or> br_stop_reason r = ''end_turn'' \<or> i + k = 4))"
  using assms
proof (induction "5 - i" arbitrary: i s k)
  case 0
  then have "toolUseLoop m i s [] = ([], Inr (agentOutput s))"
    by (subst toolUseLoop_step) simp
  with "0.prems" show ?case by simp
next
  case (Suc n)
  then have i: "i < 5" and n: "n = 5 - Suc i" by simp_all
  show ?case
  proof (cases "m (ls_messages s)")
    case (Inl e)
    with i have "toolUseLoop m i s [] = ([Inl e], Inl e)"
      by (subst toolUseLoop_step) simp
    with Suc.prems show ?thesis by simp
  next
    case (Inr r)
    let ?us = "toolUseBlocksOf (br_content r)"
    consider (none) "?us = []"
      | (stop) "?us \<noteq> []" "br_stop_reason r = ''end_turn''"
      | (more) "?us \<noteq> []" "br_stop_reason r \<noteq> ''end_turn''"
      by blast
    then show ?thesis
    proof cases
      case none
      with i Inr have "toolUseLoop m i s [] = ([Inr r], Inr (agentOutput s))"
        by (subst toolUseLoop_step) simp
      with Suc.prems none show ?thesis by simp
    next
      case stop
      with i Inr have "toolUseLoop m i s [] = ([Inr r], Inr (agentOutput (nextState s r)))"
        by (subst toolUseLoop_step) simp
      with Suc.prems stop show ?thesis by simp
    next
      case more
      let ?next = "toolUseLoop m (Suc i) (nextState s r) []"
      from more i Inr have step: "toolUseLoop m i s [] = (Inr r # fst ?next, snd ?next)"
        by (subst toolUseLoop_step) simp
      show ?thesis
      proof (cases k)
        case 0
        have "(fst ?next = []) = (i = 4)"
        proof (cases "i = 4")
          case True
          with toolUseLoop_length [of m "Suc i" "nextState s r"] show ?thesis by simp
        next
          case False
          with i have "Suc i < 5" by simp
          from toolUseLoop_nonempty [OF this] False show ?thesis by simp
        qed
        with 0 more show ?thesis unfolding step by auto
      next
        case (Suc j)
        with Suc.prems step have j: "j < length (fst ?next)" by simp
        from Suc.hyps(1) [OF n j] Suc show ?thesis unfolding step by (simp split: sum.splits)
      qed
    qed
  qed
qed

lemma toolUseLoop_from_model:
  "x \<in> set (fst (toolUseLoop m i s [])) \<Longrightarrow> \<exists>ms. x = m ms"
proof (induction "5 - i" arbitrary: i s)
  case 0
  then have "toolUseLoop m i s [] = ([], Inr (agentOutput s))"
    by (subst toolUseLoop_step) simp
  with "0.prems" show ?case by simp
next
  case (Suc n)
  then have i: "i < 5" and n: "n = 5 - Suc i" by simp_all
  note ih = Suc.hyps(1) [OF n]
  show ?case
  proof (cases "m (ls_messages s)")
    case (Inl e)
    with i have "toolUseLoop m i s [] = ([Inl e], Inl e)"
      by (subst toolUseLoop_step) simp
    with Suc.prems Inl show ?thesis by (metis fst_conv list.set_cases list.inject empty_iff empty_set)
  next
    case (Inr r)
    have "fst (toolUseLoop m i s []) = [Inr r]
        \<or> fst (toolUseLoop m i s []) = Inr r # fst (toolUseLoop m (Suc i) (nextState s r) [])"
      using i Inr by (subst (1 2) toolUseLoop_step) simp
    with Suc.prems have "x = Inr r \<or> x \<in> set (fst (toolUseLoop m (Suc i) (nextState s r) []))"
      by auto
    with ih Inr show ?thesis by metis
  qed
qed

text \<open>
  Claim C2. For every model the loop of \<open>analyzeWithTools\<close> makes at most 5
  request/response rounds and returns (the function is total). When every request is
  answered the result is an output whose operations are all the operations converted from
  the tool calls of the rounds, in order. A round whose response has no tool call is the
  last one. A model that always answers with at least one tool call and never ends its
  turn gets exactly 5 rounds.
\<close>

theorem analyzeWithTools_bounded:
  "length (fst (analyzeWithTools m p)) \<le> 5
   \<and> ((\<forall>ms. \<exists>r. m ms = Inr r) \<longrightarrow>
        (\<exists>out. snd (analyzeWithTools m p) = Inr out
              \<and> operations out = operationsOf (toolUsesOf (fst (analyzeWithTools m p)))))
   \<and> (\<forall>k r. k < length (fst (analyzeWithTools m p))
            \<and> fst (analyzeWithTools m p) ! k = Inr r
            \<and> toolUseBlocksOf (br_content r) = []
          \<longrightarrow> Suc k = length (fst (analyzeWithTools m p)))
   \<and> ((\<forall>ms. \<exists>r. m ms = Inr r \<and> toolUseBlocksOf (br_content r) \<noteq> []
                     \<and> br_stop_reason r \<noteq> ''end_turn'')
        \<longrightarrow> length (fst (analyzeWithTools m p)) = 5)"
proof -
  let ?s = "\<lparr>ls_operations = [], ls_analysis = emptyAnalysis, ls_reasoning = [],
             ls_messages = [\<lparr>m_role = ''user'', m_content = Prompt p\<rparr>]\<rparr>"
  let ?rounds = "fst (toolUseLoop m 0 ?s [])"
  have run: "analyzeWithTools m p = toolUseLoop m 0 ?s []"
    by (simp add: analyzeWithTools_def)
  have bound: "length ?rounds \<le> 5"
    using toolUseLoop_length [of m 0 ?s] by simp
  have ops: "\<exists>out. snd (toolUseLoop m 0 ?s []) = Inr out
              \<and> operations out = operationsOf (toolUsesOf ?rounds)"
    if "\<forall>ms. \<exists>r. m ms = Inr r"
  proof -
    from toolUseLoop_answers [OF that, of 0 ?s]
    obtain out where out: "snd (toolUseLoop m 0 ?s []) = Inr out" by blast
    from toolUseLoop_output [OF out] out show ?thesis by simp
  qed
  have quiet: "Suc k = length ?rounds"
    if "k < length ?rounds" "?rounds ! k = Inr r" "toolUseBlocksOf (br_content r) = []" for k r
    using toolUseLoop_last_round [OF that(1)] that(2,3) by simp
  have five: "length ?rounds = 5"
    if busy: "\<forall>ms. \<exists>r. m ms = Inr r \<and> toolUseBlocksOf (br_content r) \<noteq> []
                     \<and> br_stop_reason r \<noteq> ''end_turn''"
  proof -
    have ne: "?rounds \<noteq> []" by (rule toolUseLoop_nonempty) simp
    define k where "k = length ?rounds - 1"
    with ne have k: "k < length ?rounds" and sk: "Suc k = length ?rounds" by simp_all
    then have "?rounds ! k \<in> set ?rounds" by simp
    from toolUseLoop_from_model [OF this] obtain ms where "?rounds ! k = m ms" by blast
    with busy obtain r where r: "?rounds ! k = Inr r" "toolUseBlocksOf (br_content r) \<noteq> []"
      "br_stop_reason r \<noteq> ''end_turn''" by metis
    from toolUseLoop_last_round [OF k] r sk have "k = 4" by simp
    with sk show ?thesis by simp
  qed
  from bound ops quiet five show ?thesis unfolding run by blast
qed

theorem analyzeWithTools_bounded_witness:
  "length (fst (analyzeWithTools neverReports ''news'')) = 5
   \<and> (\<exists>out. snd (analyzeWithTools neverReports ''news'') = Inr out
          \<and> operations out = operationsOf (toolUsesOf (fst (analyzeWithTools neverReports ''news''))))"
proof -
  have tools: "toolUseBlocksOf (br_content flagAnswer) \<noteq> []"
    and turn: "br_stop_reason flagAnswer \<noteq> ''end_turn''"
    by (simp_all add: flagAnswer_def)
  then have busy: "\<forall>ms. \<exists>r. neverReports ms = Inr r \<and> toolUseBlocksOf (br_content r) \<noteq> []
                     \<and> br_stop_reason r \<noteq> ''end_turn''"
    by (simp add: neverReports_def)
  then have answers: "\<forall>ms. \<exists>r. neverReports ms = Inr r" by blast
  from analyzeWithTools_bounded [of neverReports "''news''"] busy answers
  show ?thesis by blast
qed





section \<open>Mutation engine: theorems\<close>

lemma setFields_other:
  "k \<notin> fst ` set updates \<Longrightarrow> setFields item updates k = item k"
  by (induction item updates rule: setFields.induct) auto

lemma putFields_skip:
  "k \<noteq> k' \<Longrightarrow> putFields item ((k', v) # rest) k = putFields item rest k"
proof (induction rest arbitrary: item)
  case Nil
  then show ?case by (cases v) simp_all
next
  case (Cons entry rest)
  obtain k2 v2 where entry: "entry = (k2, v2)" by (cases entry)
  have swap: "putFields item ((k', v) # (k2, v2) # rest) k
      = putFields (case v2 of None \<Rightarrow> item | Some a \<Rightarrow> item(k2 \<mapsto> a)) ((k', v) # rest) k"
    if "k2 \<noteq> k'"
    using that by (cases v; cases v2) (simp_all add: fun_upd_twist)
  show ?case
  proof (cases "k2 = k'")
    case True
    then show ?thesis
      using Cons.IH [OF Cons.prems, of "case v of None \<Rightarrow> item | Some a \<Rightarrow> item(k' \<mapsto> a)"]
        Cons.IH [OF Cons.prems, of item] entry
      by (cases v; cases v2) simp_all
  next
    case False
    with swap Cons.IH [OF Cons.prems] entry show ?thesis by simp
  qed
qed

lemma putFields_found:
  "k \<notin> fst ` set rest \<Longrightarrow> putFields item ((k, Some a) # rest) k = Some a"
proof (induction rest arbitrary: item)
  case Nil
  show ?case by simp
next
  case (Cons entry rest)
  obtain k2 v2 where entry: "entry = (k2, v2)" by (cases entry)
  with Cons.prems have ne: "k \<noteq> k2" and rest: "k \<notin> fst ` set rest" by auto
  have "putFields item ((k, Some a) # (k2, v2) # rest) k
      = putFields (case v2 of None \<Rightarrow> item | Some b \<Rightarrow> item(k2 \<mapsto> b)) ((k, Some a) # rest) k"
    using ne by (cases v2) (simp_all add: fun_upd_twist)
  with Cons.IH [OF rest] entry show ?case by simp
qed

lemma created_score:
  "(createProject ev table ident
      [(''id'', a), (''name'', b), (''category'', c), (''description'', d), (''logo'', e),
       (''website'', f), (''twitter'', g), (''status'', h),
       (''healthScore'', Some (ANumber 70)),
       (''newsSentiment'', i), (''recentEvents'', j), (''riskFlags'', k),
       (''opportunityFlags'', l), (''lastUpdated'', m), (''attributes'', n)]) ident
   = Some p \<Longrightarrow> p ''healthScore'' = Some (ANumber 70)"
  by (auto simp add: createProject_def putFields_skip putFields_found simp del: putFields.simps)

lemma updateProject_keeps_score:
  assumes "scoresInRange table" and "table ident = Some p"
    and "''healthScore'' \<notin> fst ` set updates"
  shows "scoresInRange (updateProject ev table ident updates)"
  using assms
  by (auto simp: scoresInRange_def updateProject_def setFields_other)

lemma updateProject_sets_score:
  assumes "scoresInRange table" and "table ident = Some p"
    and "''healthScore'' \<notin> fst ` set updates"
    and "\<forall>h. v = Some (ANumber h) \<longrightarrow> 0 \<le> h \<and> h \<le> 100" and "v = None \<or> (\<exists>h. v = Some (ANumber h))"
  shows "scoresInRange (updateProject ev table ident ((''healthScore'', v) # updates))"
  using assms
  by (auto simp: scoresInRange_def updateProject_def setFields_other)

lemma createProject_keeps_range:
  assumes "scoresInRange table"
    and "\<And>p. createProject ev table ident project ident = Some p
           \<Longrightarrow> p ''healthScore'' = Some (ANumber 70)"
  shows "scoresInRange (createProject ev table ident project)"
  unfolding scoresInRange_def
proof (intro allI impI)
  fix k p
  assume kp: "createProject ev table ident project k = Some p"
  show "\<exists>h. p ''healthScore'' = Some (ANumber h) \<and> 0 \<le> h \<and> h \<le> 100"
  proof (cases "k = ident")
    case True
    with kp assms(2) have "p ''healthScore'' = Some (ANumber 70)" by simp
    then show ?thesis by simp
  next
    case False
    with kp have "table k = Some p" by (simp add: createProject_def)
    with assms(1) show ?thesis by (simp add: scoresInRange_def)
  qed
qed

text \<open>
  Every operation but an update with a health score keeps the stored scores in range;
  an update stores the score it is given.
\<close>

lemma executeOperation_keeps_range:
  assumes "scoresInRange table"
    and "executeOperation ev table operation = Inr (table', r)"
    and "\<forall>entityId updates reason h. operation = OpUpdate entityId updates reason
           \<and> upd_healthScore updates = Some h \<longrightarrow> 0 \<le> h \<and> h \<le> 100"
  shows "scoresInRange table'"
proof (cases operation)
  case (OpCreate entity)
  show ?thesis
  proof (cases "ent_id entity")
    case None
    with assms(2) OpCreate show ?thesis by (simp add: getProject_def)
  next
    case (Some ident)
    show ?thesis
    proof (cases "table ident")
      case None
      let ?fields = "[(''id'', optString (ent_id entity)),
                  (''name'', optString (ent_name entity)),
                  (''category'', optString (ent_category entity)),
                  (''description'', optString (ent_description entity)),
                  (''logo'', optString (ent_logo entity)),
                  (''website'', optString (ent_website entity)),
                  (''twitter'', optString (ent_twitter entity)),
                  (''status'', Some (AString ''normal'')),
                  (''healthScore'', Some (ANumber 70)),
                  (''newsSentiment'', Some (AString ''neutral'')),
                  (''recentEvents'', Some (AEvents [])),
                  (''riskFlags'', Some (ARiskFlags [])),
                  (''opportunityFlags'', Some (AOpportunityFlags [])),
                  (''lastUpdated'', Some (AString (ae_now ev))),
                  (''attributes'', Some (AAttributes (case ent_attributes entity of
                                                        None \<Rightarrow> [] | Some a \<Rightarrow> a)))]"
      from assms(2) OpCreate None \<open>ent_id entity = Some ident\<close>
      have "table' = createProject ev table ident ?fields"
        by (auto simp: getProject_def)
      moreover have "scoresInRange (createProject ev table ident ?fields)"
        by (rule createProject_keeps_range [OF assms(1)]) (rule created_score)
      ultimately show ?thesis by simp
    next
      case (Some existing)
      with assms(2) OpCreate \<open>ent_id entity = Some ident\<close>
      have "table' = updateProject ev table ident
                 [(''description'', optString (ent_description entity)),
                  (''logo'', optString (ent_logo entity)),
                  (''website'', optString (ent_website entity)),
                  (''twitter'', optString (ent_twitter entity))]"
        by (auto simp: getProject_def)
      then show ?thesis
        using updateProject_keeps_score [OF assms(1) Some] by simp
    qed
  qed
next
  case (OpUpdate entityId updates reason)
  show ?thesis
  proof (cases entityId)
    case None
    with assms(2) OpUpdate show ?thesis by (simp add: getProject_def)
  next
    case (Some ident)
    show ?thesis
    proof (cases "table ident")
      case None
      with assms(1,2) OpUpdate Some show ?thesis by (simp add: getProject_def)
    next
      case (Some existing)
      with assms(2) OpUpdate \<open>entityId = Some ident\<close>
      have "table' = updateProject ev table ident
                 ((''healthScore'', map_option ANumber (upd_healthScore updates)) #
                  [(''status'', optString (upd_status updates)),
                   (''newsSentiment'', optString (upd_newsSentiment updates)),
                   (''attributes'', map_option AAttributes (upd_attributes updates))])"
        by (auto simp: getProject_def)
      moreover have "\<forall>h. map_option ANumber (upd_healthScore updates) = Some (ANumber h)
                        \<longrightarrow> 0 \<le> h \<and> h \<le> 100"
        using assms(3) OpUpdate by auto
      moreover have "map_option ANumber (upd_healthScore updates) = None
          \<or> (\<exists>h. map_option ANumber (upd_healthScore updates) = Some (ANumber h))"
        by (cases "upd_healthScore updates") simp_all
      ultimately show ?thesis
        using updateProject_sets_score [OF assms(1) Some] by simp
    qed
  qed
next
  case (OpAddEvent entityId event)
  with assms(1,2) show ?thesis
    by (auto simp: addProjectEvent_def getProject_def Let_def
        intro!: updateProject_keeps_score split: option.splits)
next
  case (OpAddRiskFlag entityId flag)
  with assms(1,2) show ?thesis
    by (auto simp: addRiskFlag_def getProject_def Let_def
        intro!: updateProject_keeps_score split: option.splits if_splits)
next
  case (OpAddOpportunityFlag entityId flag)
  with assms(1,2) show ?thesis
    by (auto simp: addOpportunityFlag_def getProject_def Let_def
        intro!: updateProject_keeps_score split: option.splits if_splits)
qed

text \<open>
  Claim C8 fails on the code: a new entity gets the health score 70, and an update
  operation with the health score 150 stores 150.
\<close>

theorem update_stores_score_out_of_range:
  "map_sum id (\<lambda>table. healthScore table ''acme'')
     (executeOperations sampleAgentEnv Map.empty [OpCreate acmeEntity]) = Inr (Some 70)
   \<and> map_sum id (\<lambda>table. healthScore table ''acme'')
     (executeOperations sampleAgentEnv Map.empty [OpCreate acmeEntity, overshoot]) = Inr (Some 150)"
  by (simp add: getProject_def createProject_def updateProject_def healthScore_def
      acmeEntity_def overshoot_def optString_def)

end
